theory Spec2Isabelle
  imports Complex_Main "HOL-Library.Log_Nat"
begin

section \<open>Numbers\<close>

text \<open>
  The pages are JavaScript. A number of theirs is a binary64 value, and every finite
  binary64 value is a rational, so numbers are rationals here. The tables below keep the
  decimal literals of the source digit for digit; the value that JavaScript holds for a
  literal is the nearest binary64 value, which \<open>binary64\<close> computes. Years and bin ids
  are integers.
\<close>

type_synonym number = rat

text \<open>Rounding to the nearest integer, a tie going to the even one.\<close>

definition round_half_even :: "rat \<Rightarrow> int" where
  "round_half_even y =
     (let n = \<lfloor>y\<rfloor>; r = y - of_int n
      in if r < 1 / 2 then n else if 1 / 2 < r then n + 1 else if even n then n else n + 1)"

text \<open>
  The binary exponent of a positive rational \<open>x\<close>: the \<open>e\<close> with
  \<open>2 ^ e \<le> x < 2 ^ (e + 1)\<close>. With \<open>x = p / q\<close> in lowest terms it is the difference of the
  bit lengths of \<open>p\<close> and \<open>q\<close>, or one less.
\<close>

definition exponent :: "rat \<Rightarrow> int" where
  "exponent x =
     (let (p, q) = quotient_of x; d = bitlen p - bitlen q
      in if 2 powi d \<le> x then d else d - 1)"

text \<open>
  The binary64 value nearest to a rational, ties to the even significand: the rational is
  rounded to a multiple of the unit in the last place, which is \<open>2 ^ (e - 52)\<close> for the
  binary exponent \<open>e\<close> of the rational and never less than \<open>2 ^ - 1074\<close>. It is the value
  of a decimal literal and of the exact result of an arithmetic operation. A magnitude
  of \<open>2 ^ 1024\<close> or more, which JavaScript turns into \<open>Infinity\<close>, is outside this
  function; no number of the pages comes near it.
\<close>

definition binary64 :: "rat \<Rightarrow> rat" where
  "binary64 x =
     (if x = 0 then 0
      else let ulp = 2 powi (max (exponent \<bar>x\<bar>) (- 1022) - 52)
           in sgn x * of_int (round_half_even (\<bar>x\<bar> / ulp)) * ulp)"

section \<open>BinPage: the static table of spatial bins\<close>

text \<open>
  One entry of \<open>binsData\<close>. The field \<open>id\<close> of the source is \<open>id_bin\<close> here.
  \<open>bounds\<close> is the four-element array of the source; the table body of the page prints
  \<open>SW: (bounds[0], bounds[2])\<close> and \<open>NE: (bounds[1], bounds[3])\<close> under the heading
  \<open>BOUNDS (LON, LAT)\<close>, so the array is \<open>[lon_min, lon_max, lat_min, lat_max]\<close>.
\<close>

record bin =
  id_bin :: int
  bounds :: "number list"
  width :: number
  height :: number
  area :: number
  center_lat :: number
  center_lon :: number
  locations :: "string list"

definition lon_min :: "bin \<Rightarrow> number" where
  "lon_min b = bounds b ! 0"

definition lon_max :: "bin \<Rightarrow> number" where
  "lon_max b = bounds b ! 1"

definition lat_min :: "bin \<Rightarrow> number" where
  "lat_min b = bounds b ! 2"

definition lat_max :: "bin \<Rightarrow> number" where
  "lat_max b = bounds b ! 3"

text \<open>
  Four place names of the first table contain an en dash (U+2013). It is written as the
  three bytes of its UTF-8 encoding.
\<close>

definition en_dash :: string where
  "en_dash = [CHR 0xE2, CHR 0x80, CHR 0x93]"

text \<open>The table of the first variant of the page.\<close>

definition binsData :: "bin list" where
  "binsData = [
    \<lparr> id_bin = 0,
      bounds = [119.475, 122.65, 7.0, 12.0],
      width = 3.175,
      height = 5.0,
      area = 15.875,
      center_lat = 9.5,
      center_lon = 121.0625,
      locations = [
        ''Southern Mindoro'',
        ''Panay (Aklan, Antique, Iloilo)'',
        ''Western Negros (Occidental/Oriental)''
      ] \<rparr>,
    \<lparr> id_bin = 1,
      bounds = [125.825, 127.4125, 2.0, 4.5],
      width = 1.5875,
      height = 2.5,
      area = 3.97,
      center_lat = 3.25,
      center_lon = 126.61875,
      locations = [
        ''Celebes Sea'',
        ''Southern Mindanao offshore (Sarangani Bay, Davao Occidental)'',
        ''Border near Indonesia''
      ] \<rparr>,
    \<lparr> id_bin = 2,
      bounds = [127.4125, 129.0, 2.0, 4.5],
      width = 1.5875,
      height = 2.5,
      area = 3.97,
      center_lat = 3.25,
      center_lon = 128.20625,
      locations = [
        ''Celebes Sea'' @ en_dash @ ''Pacific transition (offshore southeast of Mindanao)''
      ] \<rparr>,
    \<lparr> id_bin = 3,
      bounds = [125.825, 127.4125, 4.5, 7.0],
      width = 1.5875,
      height = 2.5,
      area = 3.97,
      center_lat = 5.75,
      center_lon = 126.61875,
      locations = [
        ''Davao Region (Davao Oriental, Occidental, City)'',
        ''Compostela Valley'',
        ''Parts of Sarangani''
      ] \<rparr>,
    \<lparr> id_bin = 4,
      bounds = [124.2375, 125.825, 7.0, 9.5],
      width = 1.5875,
      height = 2.5,
      area = 3.97,
      center_lat = 8.25,
      center_lon = 125.03125,
      locations = [
        ''Bukidnon'',
        ''Misamis Oriental'',
        ''Agusan del Sur'',
        ''Northern Davao del Norte'',
        ''Northern Cotabato''
      ] \<rparr>,
    \<lparr> id_bin = 5,
      bounds = [124.2375, 125.825, 9.5, 12.0],
      width = 1.5875,
      height = 2.5,
      area = 3.97,
      center_lat = 10.75,
      center_lon = 125.03125,
      locations = [
        ''Northern Agusan del Norte'',
        ''Northern Surigao del Sur'',
        ''Northern Mindanao uplands'',
        ''Southern Leyte'',
        ''Eastern Samar'',
        ''Dinagat Islands'',
        ''Samar''
      ] \<rparr>,
    \<lparr> id_bin = 6,
      bounds = [125.825, 127.4125, 7.0, 9.5],
      width = 1.5875,
      height = 2.5,
      area = 3.97,
      center_lat = 8.25,
      center_lon = 126.61875,
      locations = [
        ''Surigao del Sur'',
        ''Davao Oriental'',
        ''Agusan del Sur'',
        ''Eastern Mindanao offshore (Philippine Trench)''
      ] \<rparr>,
    \<lparr> id_bin = 7,
      bounds = [119.475, 121.0625, 12.0, 14.5],
      width = 1.5875,
      height = 2.5,
      area = 3.97,
      center_lat = 13.25,
      center_lon = 120.26875,
      locations = [
        ''Southern Luzon (Mindoro, Marinduque, Batangas, Quezon)'',
        ''Northern Palawan'',
        ''Dasmarinas'',
        ''Muntilupa''
      ] \<rparr>,
    \<lparr> id_bin = 8,
      bounds = [119.475, 121.0625, 14.5, 17.0],
      width = 1.5875,
      height = 2.5,
      area = 3.97,
      center_lat = 15.75,
      center_lon = 120.26875,
      locations = [
        ''Central Luzon (Zambales, Bataan, Pampanga, Nueva Ecija, Pangasinan, Tarlac, Baguio, Cabanatuan)'',
        ''Metro Manila edge'',
        ''Olangapo'',
        ''Bataan'',
        ''Mariveles'',
        ''Benguet'',
        ''La Union''
      ] \<rparr>,
    \<lparr> id_bin = 9,
      bounds = [121.0625, 122.65, 14.5, 17.0],
      width = 1.5875,
      height = 2.5,
      area = 3.97,
      center_lat = 15.75,
      center_lon = 121.85625,
      locations = [
        ''Quezon Province'',
        ''Pasig'',
        ''Taguig'',
        ''Rizal'',
        ''Tanay'',
        ''Antipolo'',
        ''Dona Remedios Trinidad'',
        ''Montalbon'',
        ''Quirino'',
        ''Aurora'',
        ''Camarines Norte'',
        ''Polillo Islands''
      ] \<rparr>,
    \<lparr> id_bin = 10,
      bounds = [119.475, 121.0625, 17.0, 19.5],
      width = 1.5875,
      height = 2.5,
      area = 3.97,
      center_lat = 18.25,
      center_lon = 120.26875,
      locations = [
        ''Ilocos Region (Ilocos Norte, Ilocos Sur, La Union, Pangasinan)'',
        ''Abra'',
        ''Vigan''
      ] \<rparr>,
    \<lparr> id_bin = 11,
      bounds = [121.0625, 122.65, 17.0, 19.5],
      width = 1.5875,
      height = 2.5,
      area = 3.97,
      center_lat = 18.25,
      center_lon = 121.85625,
      locations = [
        ''Nueva Vizcaya'',
        ''Quirino'',
        ''Southern Isabela'',
        ''Tuguegarao'',
        ''Ilagan'',
        ''Apayao'',
        ''Kalinga''
      ] \<rparr>,
    \<lparr> id_bin = 12,
      bounds = [119.475, 121.0625, 19.5, 22.0],
      width = 1.5875,
      height = 2.5,
      area = 3.97,
      center_lat = 20.75,
      center_lon = 120.26875,
      locations = [
        ''Northern Luzon (Cagayan, Apayao, Mountain Province, Kalinga)'',
        ''Batanes offshore''
      ] \<rparr>,
    \<lparr> id_bin = 13,
      bounds = [121.0625, 122.65, 19.5, 22.0],
      width = 1.5875,
      height = 2.5,
      area = 3.97,
      center_lat = 20.75,
      center_lon = 121.85625,
      locations = [
        ''Eastern Cagayan Valley'',
        ''Batanes'',
        ''Northern Isabela'',
        ''Cagayan up to Babuyan Islands''
      ] \<rparr>,
    \<lparr> id_bin = 14,
      bounds = [124.2375, 125.825, 12.0, 14.5],
      width = 1.5875,
      height = 2.5,
      area = 3.97,
      center_lat = 13.25,
      center_lon = 125.03125,
      locations = [
        ''Samar'',
        ''Northern Samar'',
        ''Masbate'',
        ''Sorsogon'',
        ''Albay'',
        ''Catanduanes''
      ] \<rparr>,
    \<lparr> id_bin = 15,
      bounds = [127.4125, 129.0, 4.5, 9.5],
      width = 1.5875,
      height = 5.0,
      area = 7.94,
      center_lat = 7.0,
      center_lon = 128.20625,
      locations = [
        ''Philippine Trench (east of Mindanao)'',
        ''Offshore Davao'' @ en_dash @ ''Caraga''
      ] \<rparr>,
    \<lparr> id_bin = 16,
      bounds = [122.65, 124.2375, 7.0, 12.0],
      width = 1.5875,
      height = 5.0,
      area = 7.94,
      center_lat = 9.5,
      center_lon = 123.44375,
      locations = [
        ''Central'' @ en_dash @ ''Eastern Visayas (Leyte, Samar, Biliran, Cebu, Bohol, Zambonga del Sur, Lanao del Norte, Misamis Occidental, Parts of Zambonga del Norte)'',
        ''Northern Mindanao coast''
      ] \<rparr>,
    \<lparr> id_bin = 17,
      bounds = [121.0625, 124.2375, 12.0, 14.5],
      width = 3.175,
      height = 2.5,
      area = 7.94,
      center_lat = 13.25,
      center_lon = 122.65,
      locations = [
        ''Bicol Region (Camarines Norte, Camarines Sur, Albay)'',
        ''Sibuyan Island'',
        ''Parts of Masbate'',
        ''Romblon'',
        '' Sorosogon'',
        ''Oriental Mindoro'',
        ''Marinduque'',
        ''Catanduanes'',
        ''Parts of Batangas'',
        ''Calamba Laguna'',
        ''Quezon''
      ] \<rparr>,
    \<lparr> id_bin = 18,
      bounds = [125.825, 129.0, 12.0, 22.0],
      width = 3.175,
      height = 10.0,
      area = 31.75,
      center_lat = 17.0,
      center_lon = 127.4125,
      locations = [
        ''Philippine Trench (east of Luzon & Samar)'',
        ''Deep Pacific offshore area''
      ] \<rparr>,
    \<lparr> id_bin = 19,
      bounds = [124.2375, 125.825, 2.0, 7.0],
      width = 1.5875,
      height = 5.0,
      area = 7.94,
      center_lat = 4.5,
      center_lon = 125.03125,
      locations = [
        ''Southern Mindanao (General Santos, South Cotabato, Sarangani, Sultan Kudarat, Davao Occidental, Davao del Sur, Maguindanao del Sur)''
      ] \<rparr>,
    \<lparr> id_bin = 20,
      bounds = [125.825, 129.0, 9.5, 12.0],
      width = 3.175,
      height = 2.5,
      area = 7.94,
      center_lat = 10.75,
      center_lon = 127.4125,
      locations = [
        ''Eastern Visayas offshore (Samar, Leyte east coast)'',
        ''Siargao'',
        ''Socorro'',
        ''Philippine Trench (Tacloban'' @ en_dash @ ''Borongan area)''
      ] \<rparr>,
    \<lparr> id_bin = 21,
      bounds = [122.65, 125.825, 14.5, 22.0],
      width = 3.175,
      height = 7.5,
      area = 23.81,
      center_lat = 18.25,
      center_lon = 124.2375,
      locations = [
        ''Bicol Region (Camarines Sur, Albay, Catanduanes)'',
        ''Eastern Luzon (Quezon, Aurora, Isabela coastal areas)''
      ] \<rparr>,
    \<lparr> id_bin = 22,
      bounds = [116.3, 119.475, 7.0, 22.0],
      width = 3.175,
      height = 15.0,
      area = 47.625,
      center_lat = 14.5,
      center_lon = 117.8875,
      locations = [
        ''Palawan'',
        ''Mindoro'',
        ''Calamian Islands'',
        ''Balabac'',
        ''Spratly Islands vicinity (West Philippine Sea)''
      ] \<rparr>,
    \<lparr> id_bin = 23,
      bounds = [116.3, 124.2375, 2.0, 7.0],
      width = 7.9375,
      height = 5.0,
      area = 39.6875,
      center_lat = 4.5,
      center_lon = 120.26875,
      locations = [
        ''Sulu Archipelago (Tawi-Tawi, Basilan, Jolo)'',
        ''Zamboanga City '',
        ''Celebes Sea''
      ] \<rparr>
  ]"

text \<open>
  The table of the second variant of the page, introduced there as the hardcoded bins with
  location information. Both variants call it \<open>binsData\<close>.
\<close>

definition binsData_hardcoded :: "bin list" where
  "binsData_hardcoded = [
    \<lparr> id_bin = 0,
      bounds = [119.475, 122.65, 7.0, 12.0],
      width = 3.175,
      height = 5.0,
      area = 15.875,
      center_lat = 9.5,
      center_lon = 121.0625,
      locations = [''Palawan (northern part)'', ''Mindoro'', ''Romblon''] \<rparr>,
    \<lparr> id_bin = 1,
      bounds = [125.825, 127.4125, 2.0, 4.5],
      width = 1.5875,
      height = 2.5,
      area = 3.97,
      center_lat = 3.25,
      center_lon = 126.61875,
      locations = [''North Maluku'', ''Halmahera Sea''] \<rparr>,
    \<lparr> id_bin = 2,
      bounds = [127.4125, 129.0, 2.0, 4.5],
      width = 1.5875,
      height = 2.5,
      area = 3.97,
      center_lat = 3.25,
      center_lon = 128.20625,
      locations = [''Maluku Sea'', ''Eastern Halmahera''] \<rparr>,
    \<lparr> id_bin = 3,
      bounds = [125.825, 127.4125, 4.5, 7.0],
      width = 1.5875,
      height = 2.5,
      area = 3.97,
      center_lat = 5.75,
      center_lon = 126.61875,
      locations = [''Sangihe Islands'', ''North Sulawesi Sea''] \<rparr>,
    \<lparr> id_bin = 4,
      bounds = [124.2375, 125.825, 7.0, 9.5],
      width = 1.5875,
      height = 2.5,
      area = 3.97,
      center_lat = 8.25,
      center_lon = 125.03125,
      locations = [''Northern Mindanao'', ''Camiguin'', ''Bohol Sea''] \<rparr>,
    \<lparr> id_bin = 5,
      bounds = [124.2375, 125.825, 9.5, 12.0],
      width = 1.5875,
      height = 2.5,
      area = 3.97,
      center_lat = 10.75,
      center_lon = 125.03125,
      locations = [''Cebu'', ''Bohol'', ''Central Visayas''] \<rparr>,
    \<lparr> id_bin = 6,
      bounds = [125.825, 127.4125, 7.0, 9.5],
      width = 1.5875,
      height = 2.5,
      area = 3.97,
      center_lat = 8.25,
      center_lon = 126.61875,
      locations = [''Davao Gulf'', ''Mindanao Sea'', ''Surigao''] \<rparr>,
    \<lparr> id_bin = 7,
      bounds = [119.475, 121.0625, 12.0, 14.5],
      width = 1.5875,
      height = 2.5,
      area = 3.97,
      center_lat = 13.25,
      center_lon = 120.26875,
      locations = [''Southern Luzon'', ''Mindoro Strait'', ''Batangas''] \<rparr>,
    \<lparr> id_bin = 8,
      bounds = [119.475, 121.0625, 14.5, 17.0],
      width = 1.5875,
      height = 2.5,
      area = 3.97,
      center_lat = 15.75,
      center_lon = 120.26875,
      locations = [''Central Luzon'', ''Manila Bay'', ''Zambales''] \<rparr>,
    \<lparr> id_bin = 9,
      bounds = [121.0625, 122.65, 14.5, 17.0],
      width = 1.5875,
      height = 2.5,
      area = 3.97,
      center_lat = 15.75,
      center_lon = 121.85625,
      locations = [''Metro Manila'', ''Rizal'', ''Laguna'', ''Quezon''] \<rparr>,
    \<lparr> id_bin = 10,
      bounds = [119.475, 121.0625, 17.0, 19.5],
      width = 1.5875,
      height = 2.5,
      area = 3.97,
      center_lat = 18.25,
      center_lon = 120.26875,
      locations = [''Ilocos'', ''La Union'', ''Pangasinan''] \<rparr>,
    \<lparr> id_bin = 11,
      bounds = [121.0625, 122.65, 17.0, 19.5],
      width = 1.5875,
      height = 2.5,
      area = 3.97,
      center_lat = 18.25,
      center_lon = 121.85625,
      locations = [''Cagayan Valley'', ''Nueva Ecija'', ''Tarlac''] \<rparr>,
    \<lparr> id_bin = 12,
      bounds = [119.475, 121.0625, 19.5, 22.0],
      width = 1.5875,
      height = 2.5,
      area = 3.97,
      center_lat = 20.75,
      center_lon = 120.26875,
      locations = [''Northern Luzon'', ''Cagayan'', ''Ilocos Norte''] \<rparr>,
    \<lparr> id_bin = 13,
      bounds = [121.0625, 122.65, 19.5, 22.0],
      width = 1.5875,
      height = 2.5,
      area = 3.97,
      center_lat = 20.75,
      center_lon = 121.85625,
      locations = [''Cagayan'', ''Isabela'', ''Kalinga''] \<rparr>,
    \<lparr> id_bin = 14,
      bounds = [124.2375, 125.825, 12.0, 14.5],
      width = 1.5875,
      height = 2.5,
      area = 3.97,
      center_lat = 13.25,
      center_lon = 125.03125,
      locations = [''Samar'', ''Eastern Visayas'', ''Leyte Gulf''] \<rparr>,
    \<lparr> id_bin = 15,
      bounds = [127.4125, 129.0, 4.5, 9.5],
      width = 1.5875,
      height = 5.0,
      area = 7.94,
      center_lat = 7.0,
      center_lon = 128.20625,
      locations = [''North Maluku'', ''Celebes Sea''] \<rparr>,
    \<lparr> id_bin = 16,
      bounds = [122.65, 124.2375, 7.0, 12.0],
      width = 1.5875,
      height = 5.0,
      area = 7.94,
      center_lat = 9.5,
      center_lon = 123.44375,
      locations = [''Negros'', ''Siquijor'', ''Bohol Sea''] \<rparr>,
    \<lparr> id_bin = 17,
      bounds = [121.0625, 124.2375, 12.0, 14.5],
      width = 3.175,
      height = 2.5,
      area = 7.94,
      center_lat = 13.25,
      center_lon = 122.65,
      locations = [''Bicol Peninsula'', ''Masbate'', ''Albay''] \<rparr>,
    \<lparr> id_bin = 18,
      bounds = [125.825, 129.0, 12.0, 22.0],
      width = 3.175,
      height = 10.0,
      area = 31.75,
      center_lat = 17.0,
      center_lon = 127.4125,
      locations = [''Philippine Sea'', ''Pacific Ocean''] \<rparr>,
    \<lparr> id_bin = 19,
      bounds = [124.2375, 125.825, 2.0, 7.0],
      width = 1.5875,
      height = 5.0,
      area = 7.94,
      center_lat = 4.5,
      center_lon = 125.03125,
      locations = [''North Sulawesi'', ''Celebes Sea''] \<rparr>,
    \<lparr> id_bin = 20,
      bounds = [125.825, 129.0, 9.5, 12.0],
      width = 3.175,
      height = 2.5,
      area = 7.94,
      center_lat = 10.75,
      center_lon = 127.4125,
      locations = [''Mindanao Sea'', ''Eastern Mindanao''] \<rparr>,
    \<lparr> id_bin = 21,
      bounds = [122.65, 125.825, 14.5, 22.0],
      width = 3.175,
      height = 7.5,
      area = 23.81,
      center_lat = 18.25,
      center_lon = 124.2375,
      locations = [''Northern Philippines Sea'', ''Luzon Strait''] \<rparr>,
    \<lparr> id_bin = 22,
      bounds = [116.3, 119.475, 7.0, 22.0],
      width = 3.175,
      height = 15.0,
      area = 47.625,
      center_lat = 14.5,
      center_lon = 117.8875,
      locations = [''South China Sea'', ''Western Philippines''] \<rparr>,
    \<lparr> id_bin = 23,
      bounds = [116.3, 124.2375, 2.0, 7.0],
      width = 7.9375,
      height = 5.0,
      area = 39.6875,
      center_lat = 4.5,
      center_lon = 120.26875,
      locations = [''Sulu Sea'', ''Southern Philippines'', ''Palawan (southern)''] \<rparr>
  ]"

text \<open>
  A table entry as the page holds it when it runs: every number of the entry is the
  binary64 value of its literal.
\<close>

definition held :: "bin \<Rightarrow> bin" where
  "held b =
     b\<lparr>bounds := map binary64 (bounds b),
       width := binary64 (width b),
       height := binary64 (height b),
       area := binary64 (area b),
       center_lat := binary64 (center_lat b),
       center_lon := binary64 (center_lon b)\<rparr>"

text \<open>The area stored with a bin is within \<open>tol\<close> of the product of its side lengths.\<close>

definition area_matches :: "number \<Rightarrow> bin \<Rightarrow> bool" where
  "area_matches tol b \<longleftrightarrow>
     \<bar>area b - (lon_max b - lon_min b) * (lat_max b - lat_min b)\<bar> \<le> tol"

section \<open>Spatial index\<close>

text \<open>
  The point-to-bin assignment of the specification (section 4.2) belongs to the backend's
  data manager, which is not among the sources; of the spatial index only the bin table
  it would scan is. Each definition of this section is therefore taken from the words of
  the specification.
\<close>

text \<open>
  Modelled from the spec: the containment test of \<open>assign\<close>, which is missing from the
  sources; a bin matches a point when \<open>lon_min \<le> lon \<le> lon_max\<close> and
  \<open>lat_min \<le> lat \<le> lat_max\<close>, both inclusive.
\<close>

definition contains_point :: "bin \<Rightarrow> number \<Rightarrow> number \<Rightarrow> bool" where
  "contains_point b lat lon \<longleftrightarrow>
     lon_min b \<le> lon \<and> lon \<le> lon_max b \<and> lat_min b \<le> lat \<and> lat \<le> lat_max b"

datatype assignment = Unassigned | Assigned int

text \<open>
  Modelled from the spec: the scan of \<open>assign\<close>, which is missing from the sources; all
  bins whose bounds contain the point, in the order of the registry.
\<close>

definition matching :: "bin list \<Rightarrow> number \<Rightarrow> number \<Rightarrow> bin list" where
  "matching reg lat lon = filter (\<lambda>b. contains_point b lat lon) reg"

text \<open>
  Modelled from the spec: the tie-break of \<open>assign\<close>, which is missing from the sources,
  between the best bin so far and the next matching bin; the smaller area wins and,
  at equal areas, the smaller id.
\<close>

definition better_of :: "bin \<Rightarrow> bin \<Rightarrow> bin" where
  "better_of a b =
     (if area b < area a \<or> (area b = area a \<and> id_bin b < id_bin a) then b else a)"

text \<open>
  Modelled from the spec: \<open>assign(lat, lon)\<close>, which is missing from the sources. No
  match gives \<open>Unassigned\<close>, exactly one match gives that bin, several matches give the
  one the tie-break selects.
\<close>

definition assign :: "bin list \<Rightarrow> number \<Rightarrow> number \<Rightarrow> assignment" where
  "assign reg lat lon =
     (case matching reg lat lon of
        [] \<Rightarrow> Unassigned
      | [b] \<Rightarrow> Assigned (id_bin b)
      | b # bs \<Rightarrow> Assigned (id_bin (foldl better_of b bs)))"

text \<open>
  The order the tie-break is meant to realise: \<open>a\<close> is at least as good as \<open>b\<close> when
  its area is smaller, or equal with an id that is not larger.
\<close>

definition at_least_as_good :: "bin \<Rightarrow> bin \<Rightarrow> bool" where
  "at_least_as_good a b \<longleftrightarrow>
     area a < area b \<or> (area a = area b \<and> id_bin a \<le> id_bin b)"

section \<open>Forecasting page\<close>

text \<open>
  The second variant of \<open>ForecastPage\<close>, the one that talks to the backend. A row of the
  forecast table carries the risk level as the string the backend sends.
\<close>

record forecast_row =
  bin_id :: int
  max_magnitude :: number
  num_earthquakes :: int
  risk_level :: string

text \<open>A historical earthquake as the page reads it; \<open>id\<close> is \<open>id_eq\<close> here.\<close>

record earthquake =
  id_eq :: int
  latitude :: number
  longitude :: number
  magnitude :: number
  depth :: number
  date :: string
  location :: string

text \<open>
  An awaited \<open>axios.get\<close> either resolves with the data of the response or throws. A
  resolved reply carries the list the page reads from it; a response that lacks that
  list is not among the replies considered here.
\<close>

datatype 'a reply = Resolved 'a | Rejected

text \<open>
  The state of the component that the functions below read or write. \<open>inputYear\<close> is
  the result of \<open>parseInt\<close> on the input field: an integer, or \<open>NaN\<close>, which is \<open>None\<close>.
  \<open>error\<close> is \<open>null\<close> (\<open>None\<close>) or a message.
\<close>

record page =
  inputYear :: "int option"
  forecastData :: "forecast_row list"
  loading :: bool
  historicalData :: "earthquake list"
  error :: "string option"

text \<open>
  The state the component starts in; \<open>now\<close> is the calendar year of the clock,
  \<open>new Date().getFullYear()\<close>.
\<close>

definition initialPage :: "int \<Rightarrow> page" where
  "initialPage now =
     \<lparr> inputYear = Some (now + 1), forecastData = [], loading = False,
       historicalData = [], error = None \<rparr>"

record geographic_bin =
  name :: string
  coordinates :: "number list"
  description :: string
  color :: string

text \<open>The bins the page draws, an object keyed by bin id.\<close>

definition geographicBins :: "(int \<times> geographic_bin) list" where
  "geographicBins = [
     (1, \<lparr> name = ''Northern Luzon'', coordinates = [16.5, 120.5],
           description = ''Baguio, La Union, Ilocos region'', color = ''#28a745'' \<rparr>),
     (2, \<lparr> name = ''Central Luzon'', coordinates = [15.1, 120.6],
           description = ''Angeles, Pampanga, Tarlac region'', color = ''#ffc107'' \<rparr>),
     (3, \<lparr> name = ''Metro Manila'', coordinates = [14.6, 121.0],
           description = ''Manila, Quezon City, surrounding areas'', color = ''#dc3545'' \<rparr>),
     (4, \<lparr> name = ''Southern Philippines'', coordinates = [7.1, 125.6],
           description = ''Davao, Mindanao region'', color = ''#6f42c1'' \<rparr>)
   ]"

definition riskColors :: "(string \<times> string) list" where
  "riskColors = [
     (''low'', ''#28a745''),
     (''medium'', ''#ffc107''),
     (''high'', ''#fd7e14''),
     (''critical'', ''#dc3545'')
   ]"

text \<open>The rows \<open>generateForecast\<close> falls back to when the request fails.\<close>

definition fallbackForecast :: "forecast_row list" where
  "fallbackForecast = [
     \<lparr> bin_id = 1, max_magnitude = 4.2, num_earthquakes = 15, risk_level = ''low'' \<rparr>,
     \<lparr> bin_id = 2, max_magnitude = 5.8, num_earthquakes = 8, risk_level = ''medium'' \<rparr>,
     \<lparr> bin_id = 3, max_magnitude = 6.5, num_earthquakes = 3, risk_level = ''high'' \<rparr>,
     \<lparr> bin_id = 4, max_magnitude = 7.2, num_earthquakes = 1, risk_level = ''critical'' \<rparr>
   ]"

text \<open>
  \<open>generateForecast\<close>: the request \<open>GET /api/forecast\<close> with the parameter
  \<open>year: inputYear\<close> is the argument \<open>api\<close>, a function of the year sent. The function
  sets \<open>loading\<close> and clears \<open>error\<close>, then either stores the \<open>forecast_data\<close> of the
  response or, in the \<open>catch\<close> branch, sets the error message and stores the fallback
  rows; the \<open>finally\<close> branch clears \<open>loading\<close>.
\<close>

definition generateForecast :: "(int option \<Rightarrow> forecast_row list reply) \<Rightarrow> page \<Rightarrow> page" where
  "generateForecast api s =
     (let s1 = s\<lparr>loading := True, error := None\<rparr>;
          s2 = (case api (inputYear s1) of
                  Resolved forecast_data \<Rightarrow> s1\<lparr>forecastData := forecast_data\<rparr>
                | Rejected \<Rightarrow>
                    s1\<lparr>error := Some ''Failed to fetch forecast data. Please try again.'',
                       forecastData := fallbackForecast\<rparr>)
      in s2\<lparr>loading := False\<rparr>)"

text \<open>
  \<open>loadHistoricalData\<close>: a failed request is logged and changes nothing.
\<close>

definition loadHistoricalData :: "earthquake list reply \<Rightarrow> page \<Rightarrow> page" where
  "loadHistoricalData response s =
     (case response of
        Resolved rows \<Rightarrow> s\<lparr>historicalData := rows\<rparr>
      | Rejected \<Rightarrow> s)"

text \<open>
  The effect that runs once when the page is mounted: it calls \<open>generateForecast\<close> and
  \<open>loadHistoricalData\<close>, with the year the page starts with and without a check of it.
  The two requests run side by side and write different fields of the state, so the
  order of their completion does not matter.
\<close>

definition mountEffect ::
  "(int option \<Rightarrow> forecast_row list reply) \<Rightarrow> earthquake list reply \<Rightarrow> page \<Rightarrow> page" where
  "mountEffect api response s = loadHistoricalData response (generateForecast api s)"

text \<open>
  \<open>handleYearSubmit\<close>: the guard \<open>inputYear && inputYear >= 2020 && inputYear <= 2030\<close>.
  \<open>NaN\<close> and \<open>0\<close> are falsy, and every comparison with \<open>NaN\<close> is false.
\<close>

definition handleYearSubmit :: "(int option \<Rightarrow> forecast_row list reply) \<Rightarrow> page \<Rightarrow> page" where
  "handleYearSubmit api s =
     (if (case inputYear s of
            None \<Rightarrow> False
          | Some y \<Rightarrow> y \<noteq> 0 \<and> y \<ge> 2020 \<and> y \<le> 2030)
      then generateForecast api s
      else s\<lparr>error := Some ''Please enter a valid year between 2020 and 2030.''\<rparr>)"

text \<open>
  The page renders the error box under the guard \<open>error &&\<close>: for a message that is
  neither \<open>null\<close> nor empty.
\<close>

definition shows_error :: "page \<Rightarrow> bool" where
  "shows_error s \<longleftrightarrow> (case error s of None \<Rightarrow> False | Some msg \<Rightarrow> msg \<noteq> [])"

text \<open>The colour of the marker of a historical earthquake, chosen by its magnitude.\<close>

definition markerColor :: "number \<Rightarrow> string" where
  "markerColor m =
     (if m \<ge> 6 then ''#dc3545'' else if m \<ge> 5 then ''#fd7e14'' else ''#28a745'')"

text \<open>A backend that cannot be reached: every request throws.\<close>

definition unreachable :: "int option \<Rightarrow> forecast_row list reply" where
  "unreachable year = Rejected"

text \<open>
  A list of forecast rows has exactly one row for each of the given bin ids, in ascending
  order of bin id.
\<close>

definition one_record_per_id :: "int list \<Rightarrow> forecast_row list \<Rightarrow> bool" where
  "one_record_per_id ids rows \<longleftrightarrow>
     length rows = length ids \<and>
     list_all (\<lambda>i. count_list (map bin_id rows) i = 1) ids \<and>
     sorted (map bin_id rows)"

section \<open>Risk classification\<close>

text \<open>
  The classifier that derives \<open>risk_level\<close> from \<open>max_magnitude\<close> (specification,
  section 4.4, step 3) runs in the backend, which is not among the sources: the page only
  displays the level it receives, and its fallback rows carry fixed levels.
\<close>

datatype risk = low | medium | high | critical

text \<open>
  Modelled from the spec: the thresholds of the risk classifier, which is missing from
  the sources; named constants, ascending, each the inclusive lower bound of its tier.
\<close>

definition MEDIUM_THRESHOLD :: number where
  "MEDIUM_THRESHOLD = 5.0"

definition HIGH_THRESHOLD :: number where
  "HIGH_THRESHOLD = 6.0"

definition CRITICAL_THRESHOLD :: number where
  "CRITICAL_THRESHOLD = 7.0"

text \<open>
  Modelled from the spec: the risk classifier, which is missing from the sources;
  below 5.0 low, from 5.0 medium, from 6.0 high, from 7.0 critical.
\<close>

definition classifyRisk :: "number \<Rightarrow> risk" where
  "classifyRisk m =
     (if m \<ge> CRITICAL_THRESHOLD then critical
      else if m \<ge> HIGH_THRESHOLD then high
      else if m \<ge> MEDIUM_THRESHOLD then medium
      else low)"

text \<open>The name a tier has in a forecast row.\<close>

fun risk_name :: "risk \<Rightarrow> string" where
  "risk_name low = ''low''"
| "risk_name medium = ''medium''"
| "risk_name high = ''high''"
| "risk_name critical = ''critical''"

section \<open>Forecast aggregator\<close>

text \<open>
  The forecast for a year (specification, sections 4.4 and 4.5) is computed by the
  backend, which is not among the sources; the page only requests it.
\<close>

datatype error = InvalidRequest

text \<open>
  Modelled from the spec: \<open>forecast(year)\<close> of the Forecast Aggregator, which is missing
  from the sources. For each bin, in the order of the registry, it emits one record:
  \<open>aggregate\<close> stands for the steps 1 and 2, the statistics of the Historical Store and
  the prediction of the forecasting model when there is one, and gives the maximum
  magnitude and the number of earthquakes of a bin and a year (0 and 0 for a bin without
  data); step 3 classifies the risk from the maximum magnitude.
\<close>

definition forecast :: "bin list \<Rightarrow> (int \<Rightarrow> int \<Rightarrow> number \<times> int) \<Rightarrow> int \<Rightarrow> forecast_row list" where
  "forecast reg aggregate year =
     map (\<lambda>b. \<lparr> bin_id = id_bin b,
                max_magnitude = fst (aggregate (id_bin b) year),
                num_earthquakes = snd (aggregate (id_bin b) year),
                risk_level = risk_name (classifyRisk (fst (aggregate (id_bin b) year))) \<rparr>)
       reg"

text \<open>
  Modelled from the spec: \<open>forecast(year)\<close> of the Query Service, which is missing from
  the sources. It checks the year against the supported range, 2020 to 2030 inclusive in
  the deployment at hand, and delegates to the aggregator.
\<close>

definition forecast_query ::
  "bin list \<Rightarrow> (int \<Rightarrow> int \<Rightarrow> number \<times> int) \<Rightarrow> int \<Rightarrow> error + forecast_row list" where
  "forecast_query reg aggregate year =
     (if 2020 \<le> year \<and> year \<le> 2030 then Inr (forecast reg aggregate year)
      else Inl InvalidRequest)"

text \<open>
  Modelled from the spec: the backend as a request of the page meets it, which is
  missing from the sources. The reply to \<open>GET /api/forecast\<close> carries the forecast of
  the Query Service; an \<open>InvalidRequest\<close>, like a request without a year, reaches the
  page as a failed request.
\<close>

definition backend ::
  "bin list \<Rightarrow> (int \<Rightarrow> int \<Rightarrow> number \<times> int) \<Rightarrow> int option \<Rightarrow> forecast_row list reply" where
  "backend reg aggregate year =
     (case year of
        None \<Rightarrow> Rejected
      | Some y \<Rightarrow>
          (case forecast_query reg aggregate y of
             Inl e \<Rightarrow> Rejected
           | Inr rows \<Rightarrow> Resolved rows))"

text \<open>
  The aggregate of a registry without any data: the convention of the specification,
  section 4.4, step 4, is magnitude 0 and no earthquake.
\<close>

definition no_data :: "int \<Rightarrow> int \<Rightarrow> number \<times> int" where
  "no_data bin year = (0, 0)"

section \<open>Properties of the bin table\<close>

lemmas bounds_defs = lon_min_def lon_max_def lat_min_def lat_max_def

lemma length_binsData: "length binsData = 24"
  by (simp add: binsData_def)

lemma ids_binsData:
  "map id_bin binsData =
     [0, 1, 2, 3, 4, 5, 6, 7, 8, 9, 10, 11, 12, 13, 14, 15, 16, 17, 18, 19, 20, 21, 22, 23]"
  by (simp add: binsData_def)

lemma bounds_binsData:
  "map bounds binsData = [
     [119.475, 122.65, 7.0, 12.0],
     [125.825, 127.4125, 2.0, 4.5],
     [127.4125, 129.0, 2.0, 4.5],
     [125.825, 127.4125, 4.5, 7.0],
     [124.2375, 125.825, 7.0, 9.5],
     [124.2375, 125.825, 9.5, 12.0],
     [125.825, 127.4125, 7.0, 9.5],
     [119.475, 121.0625, 12.0, 14.5],
     [119.475, 121.0625, 14.5, 17.0],
     [121.0625, 122.65, 14.5, 17.0],
     [119.475, 121.0625, 17.0, 19.5],
     [121.0625, 122.65, 17.0, 19.5],
     [119.475, 121.0625, 19.5, 22.0],
     [121.0625, 122.65, 19.5, 22.0],
     [124.2375, 125.825, 12.0, 14.5],
     [127.4125, 129.0, 4.5, 9.5],
     [122.65, 124.2375, 7.0, 12.0],
     [121.0625, 124.2375, 12.0, 14.5],
     [125.825, 129.0, 12.0, 22.0],
     [124.2375, 125.825, 2.0, 7.0],
     [125.825, 129.0, 9.5, 12.0],
     [122.65, 125.825, 14.5, 22.0],
     [116.3, 119.475, 7.0, 22.0],
     [116.3, 124.2375, 2.0, 7.0]]"
  by (simp add: binsData_def)

text \<open>Every entry of either table has the four bounds that the accessors read.\<close>

lemma bounds_complete:
  "list_all (\<lambda>b. length (bounds b) = 4) binsData \<and>
   list_all (\<lambda>b. length (bounds b) = 4) binsData_hardcoded"
  by (simp add: binsData_def binsData_hardcoded_def)

lemma nth_binsData_mem: "k < 24 \<Longrightarrow> binsData ! k \<in> set binsData"
  by (simp add: length_binsData)

text \<open>
  Read as the decimal numbers the table writes, the width and the height of every entry
  are exactly the differences of its bounds.
\<close>

lemma binsData_dimensions_decimal:
  "list_all (\<lambda>b. width b = lon_max b - lon_min b \<and> height b = lat_max b - lat_min b) binsData"
  by (simp add: binsData_def bounds_defs)

subsection \<open>The values the page holds\<close>

text \<open>The binary64 value of every literal of the bounds, widths, heights and areas.\<close>

lemma binary64_literals:
  "binary64 1.5875 = 3574732204225331 / 2 ^ 51"
  "binary64 2.0 = 2"
  "binary64 2.5 = 5 / 2 ^ 1"
  "binary64 3.175 = 3574732204225331 / 2 ^ 50"
  "binary64 3.97 = 8939645260330435 / 2 ^ 51"
  "binary64 4.5 = 9 / 2 ^ 1"
  "binary64 5.0 = 5"
  "binary64 7.0 = 7"
  "binary64 7.5 = 15 / 2 ^ 1"
  "binary64 7.9375 = 127 / 2 ^ 4"
  "binary64 7.94 = 8939645260330435 / 2 ^ 50"
  "binary64 9.5 = 19 / 2 ^ 1"
  "binary64 10.0 = 10"
  "binary64 12.0 = 12"
  "binary64 14.5 = 29 / 2 ^ 1"
  "binary64 15.0 = 15"
  "binary64 15.875 = 127 / 2 ^ 3"
  "binary64 17.0 = 17"
  "binary64 19.5 = 39 / 2 ^ 1"
  "binary64 22.0 = 22"
  "binary64 23.81 = 6701919195480719 / 2 ^ 48"
  "binary64 31.75 = 127 / 2 ^ 2"
  "binary64 39.6875 = 635 / 2 ^ 4"
  "binary64 47.625 = 381 / 2 ^ 3"
  "binary64 116.3 = 8183884947862323 / 2 ^ 46"
  "binary64 119.475 = 4203652855313203 / 2 ^ 45"
  "binary64 121.0625 = 1937 / 2 ^ 4"
  "binary64 122.65 = 4315363236695245 / 2 ^ 45"
  "binary64 124.2375 = 8742436854772531 / 2 ^ 46"
  "binary64 125.825 = 8854147236154573 / 2 ^ 46"
  "binary64 127.4125 = 4482928808768307 / 2 ^ 45"
  "binary64 129.0 = 129"
  by code_simp+

text \<open>The bounds, width, height and area of the entries, as written.\<close>

lemma dims_binsData:
  "map (\<lambda>b. (bounds b, width b, height b, area b)) binsData = [
     ([119.475, 122.65, 7.0, 12.0], 3.175, 5.0, 15.875),
     ([125.825, 127.4125, 2.0, 4.5], 1.5875, 2.5, 3.97),
     ([127.4125, 129.0, 2.0, 4.5], 1.5875, 2.5, 3.97),
     ([125.825, 127.4125, 4.5, 7.0], 1.5875, 2.5, 3.97),
     ([124.2375, 125.825, 7.0, 9.5], 1.5875, 2.5, 3.97),
     ([124.2375, 125.825, 9.5, 12.0], 1.5875, 2.5, 3.97),
     ([125.825, 127.4125, 7.0, 9.5], 1.5875, 2.5, 3.97),
     ([119.475, 121.0625, 12.0, 14.5], 1.5875, 2.5, 3.97),
     ([119.475, 121.0625, 14.5, 17.0], 1.5875, 2.5, 3.97),
     ([121.0625, 122.65, 14.5, 17.0], 1.5875, 2.5, 3.97),
     ([119.475, 121.0625, 17.0, 19.5], 1.5875, 2.5, 3.97),
     ([121.0625, 122.65, 17.0, 19.5], 1.5875, 2.5, 3.97),
     ([119.475, 121.0625, 19.5, 22.0], 1.5875, 2.5, 3.97),
     ([121.0625, 122.65, 19.5, 22.0], 1.5875, 2.5, 3.97),
     ([124.2375, 125.825, 12.0, 14.5], 1.5875, 2.5, 3.97),
     ([127.4125, 129.0, 4.5, 9.5], 1.5875, 5.0, 7.94),
     ([122.65, 124.2375, 7.0, 12.0], 1.5875, 5.0, 7.94),
     ([121.0625, 124.2375, 12.0, 14.5], 3.175, 2.5, 7.94),
     ([125.825, 129.0, 12.0, 22.0], 3.175, 10.0, 31.75),
     ([124.2375, 125.825, 2.0, 7.0], 1.5875, 5.0, 7.94),
     ([125.825, 129.0, 9.5, 12.0], 3.175, 2.5, 7.94),
     ([122.65, 125.825, 14.5, 22.0], 3.175, 7.5, 23.81),
     ([116.3, 119.475, 7.0, 22.0], 3.175, 15.0, 47.625),
     ([116.3, 124.2375, 2.0, 7.0], 7.9375, 5.0, 39.6875)]"
  by (simp add: binsData_def)

text \<open>The same fields as the page holds them.\<close>

lemma held_binsData:
  "map (\<lambda>b. (bounds (held b), width (held b), height (held b), area (held b))) binsData = [
     ([4203652855313203 / 2 ^ 45, 4315363236695245 / 2 ^ 45, 7, 12],
      3574732204225331 / 2 ^ 50, 5, 127 / 2 ^ 3),
     ([8854147236154573 / 2 ^ 46, 4482928808768307 / 2 ^ 45, 2, 9 / 2 ^ 1],
      3574732204225331 / 2 ^ 51, 5 / 2 ^ 1, 8939645260330435 / 2 ^ 51),
     ([4482928808768307 / 2 ^ 45, 129, 2, 9 / 2 ^ 1],
      3574732204225331 / 2 ^ 51, 5 / 2 ^ 1, 8939645260330435 / 2 ^ 51),
     ([8854147236154573 / 2 ^ 46, 4482928808768307 / 2 ^ 45, 9 / 2 ^ 1, 7],
      3574732204225331 / 2 ^ 51, 5 / 2 ^ 1, 8939645260330435 / 2 ^ 51),
     ([8742436854772531 / 2 ^ 46, 8854147236154573 / 2 ^ 46, 7, 19 / 2 ^ 1],
      3574732204225331 / 2 ^ 51, 5 / 2 ^ 1, 8939645260330435 / 2 ^ 51),
     ([8742436854772531 / 2 ^ 46, 8854147236154573 / 2 ^ 46, 19 / 2 ^ 1, 12],
      3574732204225331 / 2 ^ 51, 5 / 2 ^ 1, 8939645260330435 / 2 ^ 51),
     ([8854147236154573 / 2 ^ 46, 4482928808768307 / 2 ^ 45, 7, 19 / 2 ^ 1],
      3574732204225331 / 2 ^ 51, 5 / 2 ^ 1, 8939645260330435 / 2 ^ 51),
     ([4203652855313203 / 2 ^ 45, 1937 / 2 ^ 4, 12, 29 / 2 ^ 1],
      3574732204225331 / 2 ^ 51, 5 / 2 ^ 1, 8939645260330435 / 2 ^ 51),
     ([4203652855313203 / 2 ^ 45, 1937 / 2 ^ 4, 29 / 2 ^ 1, 17],
      3574732204225331 / 2 ^ 51, 5 / 2 ^ 1, 8939645260330435 / 2 ^ 51),
     ([1937 / 2 ^ 4, 4315363236695245 / 2 ^ 45, 29 / 2 ^ 1, 17],
      3574732204225331 / 2 ^ 51, 5 / 2 ^ 1, 8939645260330435 / 2 ^ 51),
     ([4203652855313203 / 2 ^ 45, 1937 / 2 ^ 4, 17, 39 / 2 ^ 1],
      3574732204225331 / 2 ^ 51, 5 / 2 ^ 1, 8939645260330435 / 2 ^ 51),
     ([1937 / 2 ^ 4, 4315363236695245 / 2 ^ 45, 17, 39 / 2 ^ 1],
      3574732204225331 / 2 ^ 51, 5 / 2 ^ 1, 8939645260330435 / 2 ^ 51),
     ([4203652855313203 / 2 ^ 45, 1937 / 2 ^ 4, 39 / 2 ^ 1, 22],
      3574732204225331 / 2 ^ 51, 5 / 2 ^ 1, 8939645260330435 / 2 ^ 51),
     ([1937 / 2 ^ 4, 4315363236695245 / 2 ^ 45, 39 / 2 ^ 1, 22],
      3574732204225331 / 2 ^ 51, 5 / 2 ^ 1, 8939645260330435 / 2 ^ 51),
     ([8742436854772531 / 2 ^ 46, 8854147236154573 / 2 ^ 46, 12, 29 / 2 ^ 1],
      3574732204225331 / 2 ^ 51, 5 / 2 ^ 1, 8939645260330435 / 2 ^ 51),
     ([4482928808768307 / 2 ^ 45, 129, 9 / 2 ^ 1, 19 / 2 ^ 1],
      3574732204225331 / 2 ^ 51, 5, 8939645260330435 / 2 ^ 50),
     ([4315363236695245 / 2 ^ 45, 8742436854772531 / 2 ^ 46, 7, 12],
      3574732204225331 / 2 ^ 51, 5, 8939645260330435 / 2 ^ 50),
     ([1937 / 2 ^ 4, 8742436854772531 / 2 ^ 46, 12, 29 / 2 ^ 1],
      3574732204225331 / 2 ^ 50, 5 / 2 ^ 1, 8939645260330435 / 2 ^ 50),
     ([8854147236154573 / 2 ^ 46, 129, 12, 22],
      3574732204225331 / 2 ^ 50, 10, 127 / 2 ^ 2),
     ([8742436854772531 / 2 ^ 46, 8854147236154573 / 2 ^ 46, 2, 7],
      3574732204225331 / 2 ^ 51, 5, 8939645260330435 / 2 ^ 50),
     ([8854147236154573 / 2 ^ 46, 129, 19 / 2 ^ 1, 12],
      3574732204225331 / 2 ^ 50, 5 / 2 ^ 1, 8939645260330435 / 2 ^ 50),
     ([4315363236695245 / 2 ^ 45, 8854147236154573 / 2 ^ 46, 29 / 2 ^ 1, 22],
      3574732204225331 / 2 ^ 50, 15 / 2 ^ 1, 6701919195480719 / 2 ^ 48),
     ([8183884947862323 / 2 ^ 46, 4203652855313203 / 2 ^ 45, 7, 22],
      3574732204225331 / 2 ^ 50, 15, 381 / 2 ^ 3),
     ([8183884947862323 / 2 ^ 46, 8742436854772531 / 2 ^ 46, 2, 7],
      127 / 2 ^ 4, 5, 635 / 2 ^ 4)]"
proof -
  have "map (\<lambda>b. (bounds (held b), width (held b), height (held b), area (held b))) binsData =
      map (\<lambda>(bd, w, h, a). (map binary64 bd, binary64 w, binary64 h, binary64 a))
        (map (\<lambda>b. (bounds b, width b, height b, area b)) binsData)"
    by (simp add: held_def)
  also have "\<dots> = [
     ([4203652855313203 / 2 ^ 45, 4315363236695245 / 2 ^ 45, 7, 12],
      3574732204225331 / 2 ^ 50, 5, 127 / 2 ^ 3),
     ([8854147236154573 / 2 ^ 46, 4482928808768307 / 2 ^ 45, 2, 9 / 2 ^ 1],
      3574732204225331 / 2 ^ 51, 5 / 2 ^ 1, 8939645260330435 / 2 ^ 51),
     ([4482928808768307 / 2 ^ 45, 129, 2, 9 / 2 ^ 1],
      3574732204225331 / 2 ^ 51, 5 / 2 ^ 1, 8939645260330435 / 2 ^ 51),
     ([8854147236154573 / 2 ^ 46, 4482928808768307 / 2 ^ 45, 9 / 2 ^ 1, 7],
      3574732204225331 / 2 ^ 51, 5 / 2 ^ 1, 8939645260330435 / 2 ^ 51),
     ([8742436854772531 / 2 ^ 46, 8854147236154573 / 2 ^ 46, 7, 19 / 2 ^ 1],
      3574732204225331 / 2 ^ 51, 5 / 2 ^ 1, 8939645260330435 / 2 ^ 51),
     ([8742436854772531 / 2 ^ 46, 8854147236154573 / 2 ^ 46, 19 / 2 ^ 1, 12],
      3574732204225331 / 2 ^ 51, 5 / 2 ^ 1, 8939645260330435 / 2 ^ 51),
     ([8854147236154573 / 2 ^ 46, 4482928808768307 / 2 ^ 45, 7, 19 / 2 ^ 1],
      3574732204225331 / 2 ^ 51, 5 / 2 ^ 1, 8939645260330435 / 2 ^ 51),
     ([4203652855313203 / 2 ^ 45, 1937 / 2 ^ 4, 12, 29 / 2 ^ 1],
      3574732204225331 / 2 ^ 51, 5 / 2 ^ 1, 8939645260330435 / 2 ^ 51),
     ([4203652855313203 / 2 ^ 45, 1937 / 2 ^ 4, 29 / 2 ^ 1, 17],
      3574732204225331 / 2 ^ 51, 5 / 2 ^ 1, 8939645260330435 / 2 ^ 51),
     ([1937 / 2 ^ 4, 4315363236695245 / 2 ^ 45, 29 / 2 ^ 1, 17],
      3574732204225331 / 2 ^ 51, 5 / 2 ^ 1, 8939645260330435 / 2 ^ 51),
     ([4203652855313203 / 2 ^ 45, 1937 / 2 ^ 4, 17, 39 / 2 ^ 1],
      3574732204225331 / 2 ^ 51, 5 / 2 ^ 1, 8939645260330435 / 2 ^ 51),
     ([1937 / 2 ^ 4, 4315363236695245 / 2 ^ 45, 17, 39 / 2 ^ 1],
      3574732204225331 / 2 ^ 51, 5 / 2 ^ 1, 8939645260330435 / 2 ^ 51),
     ([4203652855313203 / 2 ^ 45, 1937 / 2 ^ 4, 39 / 2 ^ 1, 22],
      3574732204225331 / 2 ^ 51, 5 / 2 ^ 1, 8939645260330435 / 2 ^ 51),
     ([1937 / 2 ^ 4, 4315363236695245 / 2 ^ 45, 39 / 2 ^ 1, 22],
      3574732204225331 / 2 ^ 51, 5 / 2 ^ 1, 8939645260330435 / 2 ^ 51),
     ([8742436854772531 / 2 ^ 46, 8854147236154573 / 2 ^ 46, 12, 29 / 2 ^ 1],
      3574732204225331 / 2 ^ 51, 5 / 2 ^ 1, 8939645260330435 / 2 ^ 51),
     ([4482928808768307 / 2 ^ 45, 129, 9 / 2 ^ 1, 19 / 2 ^ 1],
      3574732204225331 / 2 ^ 51, 5, 8939645260330435 / 2 ^ 50),
     ([4315363236695245 / 2 ^ 45, 8742436854772531 / 2 ^ 46, 7, 12],
      3574732204225331 / 2 ^ 51, 5, 8939645260330435 / 2 ^ 50),
     ([1937 / 2 ^ 4, 8742436854772531 / 2 ^ 46, 12, 29 / 2 ^ 1],
      3574732204225331 / 2 ^ 50, 5 / 2 ^ 1, 8939645260330435 / 2 ^ 50),
     ([8854147236154573 / 2 ^ 46, 129, 12, 22],
      3574732204225331 / 2 ^ 50, 10, 127 / 2 ^ 2),
     ([8742436854772531 / 2 ^ 46, 8854147236154573 / 2 ^ 46, 2, 7],
      3574732204225331 / 2 ^ 51, 5, 8939645260330435 / 2 ^ 50),
     ([8854147236154573 / 2 ^ 46, 129, 19 / 2 ^ 1, 12],
      3574732204225331 / 2 ^ 50, 5 / 2 ^ 1, 8939645260330435 / 2 ^ 50),
     ([4315363236695245 / 2 ^ 45, 8854147236154573 / 2 ^ 46, 29 / 2 ^ 1, 22],
      3574732204225331 / 2 ^ 50, 15 / 2 ^ 1, 6701919195480719 / 2 ^ 48),
     ([8183884947862323 / 2 ^ 46, 4203652855313203 / 2 ^ 45, 7, 22],
      3574732204225331 / 2 ^ 50, 15, 381 / 2 ^ 3),
     ([8183884947862323 / 2 ^ 46, 8742436854772531 / 2 ^ 46, 2, 7],
      127 / 2 ^ 4, 5, 635 / 2 ^ 4)]"
    unfolding dims_binsData by (simp only: list.map prod.case binary64_literals)
  finally show ?thesis .
qed

lemma held_nth:
  "k < 24 \<Longrightarrow>
   (bounds (held (binsData ! k)), width (held (binsData ! k)), height (held (binsData ! k)),
    area (held (binsData ! k))) =
   map (\<lambda>b. (bounds (held b), width (held b), height (held b), area (held b))) binsData ! k"
  by (simp add: length_binsData)

lemma binary64_difference_0:
  "binary64 (3574732204225344 / 2 ^ 50) = 3574732204225344 / 2 ^ 50"
  by code_simp

text \<open>
  C10 as stated fails. The entry with id 0 has the bounds 119.475 and 122.65 and the
  width 3.175. As the page holds them, the width is \<open>3574732204225331 / 2 ^ 50\<close> and the
  difference of the bounds is \<open>3574732204225344 / 2 ^ 50\<close>, which is also what the
  subtraction of JavaScript gives, being a binary64 value itself: the two are not equal.
\<close>

theorem binsData_width_counterexample:
  "width (held (binsData ! 0)) = 3574732204225331 / 2 ^ 50 \<and>
   lon_max (held (binsData ! 0)) - lon_min (held (binsData ! 0)) = 3574732204225344 / 2 ^ 50 \<and>
   binary64 (lon_max (held (binsData ! 0)) - lon_min (held (binsData ! 0))) =
     lon_max (held (binsData ! 0)) - lon_min (held (binsData ! 0)) \<and>
   width (held (binsData ! 0)) \<noteq> lon_max (held (binsData ! 0)) - lon_min (held (binsData ! 0))"
proof -
  have w: "width (held (binsData ! 0)) = 3574732204225331 / 2 ^ 50"
    using held_nth [of 0] by (simp add: held_binsData)
  have d: "lon_max (held (binsData ! 0)) - lon_min (held (binsData ! 0)) =
      3574732204225344 / 2 ^ 50"
    using held_nth [of 0] by (simp add: held_binsData bounds_defs)
  have js: "binary64 (lon_max (held (binsData ! 0)) - lon_min (held (binsData ! 0))) =
      lon_max (held (binsData ! 0)) - lon_min (held (binsData ! 0))"
    by (simp only: d binary64_difference_0)
  have ne: "width (held (binsData ! 0)) \<noteq>
      lon_max (held (binsData ! 0)) - lon_min (held (binsData ! 0))"
    by (simp only: w d) simp
  from w d js ne show ?thesis
    by (intro conjI)
qed

text \<open>
  C10, amended. The table has 24 entries whose ids are 0 to 23 in this order, hence
  unique. For every entry, on the values the page holds, the bounds are a proper
  rectangle, \<open>lon_min < lon_max\<close> and \<open>lat_min < lat_max\<close>, the stored height is exactly
  \<open>lat_max - lat_min\<close>, and the stored width is \<open>lon_max - lon_min\<close> to within
  \<open>10 ^ - 13\<close>, the rounding of the literals.
\<close>

theorem binsData_dimensions_held:
  "map id_bin binsData =
     [0, 1, 2, 3, 4, 5, 6, 7, 8, 9, 10, 11, 12, 13, 14, 15, 16, 17, 18, 19, 20, 21, 22, 23] \<and>
   distinct (map id_bin binsData) \<and>
   (\<forall>b\<in>set binsData.
      lon_min (held b) < lon_max (held b) \<and> lat_min (held b) < lat_max (held b) \<and>
      height (held b) = lat_max (held b) - lat_min (held b) \<and>
      \<bar>width (held b) - (lon_max (held b) - lon_min (held b))\<bar> \<le> 1 / 10 ^ 13)"
proof (intro conjI)
  show "map id_bin binsData =
     [0, 1, 2, 3, 4, 5, 6, 7, 8, 9, 10, 11, 12, 13, 14, 15, 16, 17, 18, 19, 20, 21, 22, 23]"
    by (rule ids_binsData)
  show "distinct (map id_bin binsData)"
    by (simp add: ids_binsData)
  have "list_all (\<lambda>(bd, w, h, a).
      bd ! 0 < bd ! 1 \<and> bd ! 2 < bd ! 3 \<and> h = bd ! 3 - bd ! 2 \<and>
      \<bar>w - (bd ! 1 - bd ! 0)\<bar> \<le> 1 / 10 ^ 13)
     (map (\<lambda>b. (bounds (held b), width (held b), height (held b), area (held b))) binsData)"
    unfolding held_binsData by simp
  then show "\<forall>b\<in>set binsData.
      lon_min (held b) < lon_max (held b) \<and> lat_min (held b) < lat_max (held b) \<and>
      height (held b) = lat_max (held b) - lat_min (held b) \<and>
      \<bar>width (held b) - (lon_max (held b) - lon_min (held b))\<bar> \<le> 1 / 10 ^ 13"
    by (simp add: list_all_iff bounds_defs)
qed

text \<open>
  The entry with id 0 again: its stored width is \<open>13 / 2 ^ 50\<close>, about \<open>1.2 * 10 ^ - 14\<close>,
  below the difference of its bounds.
\<close>

theorem binsData_dimensions_held_witness:
  "binsData ! 0 \<in> set binsData \<and>
   lon_min (held (binsData ! 0)) < lon_max (held (binsData ! 0)) \<and>
   lat_min (held (binsData ! 0)) < lat_max (held (binsData ! 0)) \<and>
   height (held (binsData ! 0)) = lat_max (held (binsData ! 0)) - lat_min (held (binsData ! 0)) \<and>
   \<bar>width (held (binsData ! 0)) - (lon_max (held (binsData ! 0)) - lon_min (held (binsData ! 0)))\<bar>
     \<le> 1 / 10 ^ 13 \<and>
   width (held (binsData ! 0)) - (lon_max (held (binsData ! 0)) - lon_min (held (binsData ! 0)))
     = - 13 / 2 ^ 50"
proof -
  have mem: "binsData ! 0 \<in> set binsData"
    by (rule nth_binsData_mem) simp
  have gap: "width (held (binsData ! 0)) - (lon_max (held (binsData ! 0)) - lon_min (held (binsData ! 0)))
     = - 13 / 2 ^ 50"
    using held_nth [of 0] by (simp add: held_binsData bounds_defs)
  from binsData_dimensions_held have "\<forall>b\<in>set binsData.
      lon_min (held b) < lon_max (held b) \<and> lat_min (held b) < lat_max (held b) \<and>
      height (held b) = lat_max (held b) - lat_min (held b) \<and>
      \<bar>width (held b) - (lon_max (held b) - lon_min (held b))\<bar> \<le> 1 / 10 ^ 13"
    by (elim conjE)
  from bspec [OF this mem] mem gap show ?thesis
    by (elim conjE) (intro conjI)
qed



text \<open>
  C4 as stated fails. The entry with id 1 is 1.5875 by 2.5 degrees and stores the area
  3.97, where the product of its sides is 3.96875. On the values the page holds the
  stored area exceeds the product by \<open>2814749767155 / 2 ^ 51\<close>, about 0.00125: that is
  not within a tolerance of one thousandth, let alone within the rounding error of
  floating-point arithmetic.
\<close>

theorem binsData_area_counterexample:
  "area (held (binsData ! 1)) = 8939645260330435 / 2 ^ 51 \<and>
   (lon_max (held (binsData ! 1)) - lon_min (held (binsData ! 1))) *
     (lat_max (held (binsData ! 1)) - lat_min (held (binsData ! 1))) = 558551906910205 / 2 ^ 47 \<and>
   area (held (binsData ! 1)) -
     (lon_max (held (binsData ! 1)) - lon_min (held (binsData ! 1))) *
     (lat_max (held (binsData ! 1)) - lat_min (held (binsData ! 1))) = 2814749767155 / 2 ^ 51 \<and>
   \<not> area_matches (1 / 1000) (held (binsData ! 1))"
  using held_nth [of 1] by (simp add: held_binsData area_matches_def bounds_defs)

text \<open>
  C4, amended. For every entry of the table, on the values the page holds, the stored
  area is within 0.005 of the product of the side lengths
  \<open>(lon_max - lon_min) * (lat_max - lat_min)\<close>: the distance that a rounding to two
  decimals can leave.
\<close>

theorem binsData_area_two_decimals:
  "\<forall>b\<in>set binsData. area_matches 0.005 (held b)"
proof -
  have "list_all (\<lambda>(bd, w, h, a). \<bar>a - (bd ! 1 - bd ! 0) * (bd ! 3 - bd ! 2)\<bar> \<le> 0.005)
     (map (\<lambda>b. (bounds (held b), width (held b), height (held b), area (held b))) binsData)"
    unfolding held_binsData by simp
  then show ?thesis
    by (simp add: list_all_iff area_matches_def bounds_defs)
qed

text \<open>
  The entry with id 16, 1.5875 by 5 degrees with the area 7.94: the stored area exceeds
  the product by \<open>2814749767155 / 2 ^ 50\<close>, a little more than 0.0025.
\<close>

theorem binsData_area_two_decimals_witness:
  "binsData ! 16 \<in> set binsData \<and> area_matches 0.005 (held (binsData ! 16)) \<and>
   area (held (binsData ! 16)) -
     (lon_max (held (binsData ! 16)) - lon_min (held (binsData ! 16))) *
     (lat_max (held (binsData ! 16)) - lat_min (held (binsData ! 16))) = 2814749767155 / 2 ^ 50"
proof -
  have mem: "binsData ! 16 \<in> set binsData"
    by (rule nth_binsData_mem) simp
  have gap: "area (held (binsData ! 16)) -
     (lon_max (held (binsData ! 16)) - lon_min (held (binsData ! 16))) *
     (lat_max (held (binsData ! 16)) - lat_min (held (binsData ! 16))) = 2814749767155 / 2 ^ 50"
    using held_nth [of 16] by (simp add: held_binsData bounds_defs)
  from bspec [OF binsData_area_two_decimals mem] mem gap show ?thesis
    by (intro conjI)
qed

text \<open>
  C8. The two variants of the table agree on every geometric field: entry by entry, for
  the ids 0 to 23, they have the same id, bounds, width, height, area, \<open>center_lat\<close> and
  \<open>center_lon\<close>. These are all the fields but \<open>locations\<close>, in which the tables differ.
\<close>

theorem binsData_variants_agree:
  "map id_bin binsData_hardcoded =
     [0, 1, 2, 3, 4, 5, 6, 7, 8, 9, 10, 11, 12, 13, 14, 15, 16, 17, 18, 19, 20, 21, 22, 23] \<and>
   map id_bin binsData = map id_bin binsData_hardcoded \<and>
   map bounds binsData = map bounds binsData_hardcoded \<and>
   map width binsData = map width binsData_hardcoded \<and>
   map height binsData = map height binsData_hardcoded \<and>
   map area binsData = map area binsData_hardcoded \<and>
   map center_lat binsData = map center_lat binsData_hardcoded \<and>
   map center_lon binsData = map center_lon binsData_hardcoded \<and>
   map locations binsData \<noteq> map locations binsData_hardcoded"
  by (simp add: binsData_def binsData_hardcoded_def)

section \<open>Properties of the spatial index\<close>

subsection \<open>The tie-break\<close>

lemma better_of_cases: "better_of a b = a \<or> better_of a b = b"
  by (simp add: better_of_def)

lemma at_least_as_good_refl: "at_least_as_good a a"
  by (simp add: at_least_as_good_def)

lemma at_least_as_good_trans:
  "at_least_as_good a b \<Longrightarrow> at_least_as_good b c \<Longrightarrow> at_least_as_good a c"
  unfolding at_least_as_good_def by auto

lemma better_of_left: "at_least_as_good (better_of a b) a"
  by (auto simp: better_of_def at_least_as_good_def)

lemma better_of_right: "at_least_as_good (better_of a b) b"
  by (auto simp: better_of_def at_least_as_good_def)

lemma foldl_better_of_mem: "foldl better_of b bs \<in> set (b # bs)"
proof (induction bs arbitrary: b)
  case Nil
  show ?case by simp
next
  case (Cons x xs)
  have "foldl better_of (better_of b x) xs \<in> set (better_of b x # xs)"
    by (rule Cons.IH)
  with better_of_cases [of b x] show ?case by auto
qed

lemma foldl_better_of_best:
  "c \<in> set (b # bs) \<Longrightarrow> at_least_as_good (foldl better_of b bs) c"
proof (induction bs arbitrary: b c)
  case Nil
  then show ?case by (simp add: at_least_as_good_refl)
next
  case (Cons x xs)
  let ?r = "foldl better_of (better_of b x) xs"
  have top: "at_least_as_good ?r (better_of b x)"
    by (rule Cons.IH) simp
  from Cons.prems consider "c = b" | "c = x" | "c \<in> set xs" by auto
  then show ?case
  proof cases
    case 1
    with top better_of_left [of b x] show ?thesis
      by (auto intro: at_least_as_good_trans)
  next
    case 2
    with top better_of_right [of b x] show ?thesis
      by (auto intro: at_least_as_good_trans)
  next
    case 3
    then have "at_least_as_good ?r c" by (intro Cons.IH) simp
    then show ?thesis by simp
  qed
qed

subsection \<open>The assignment\<close>

lemma matching_empty_iff:
  "matching reg lat lon = [] \<longleftrightarrow> (\<forall>b\<in>set reg. \<not> contains_point b lat lon)"
  by (auto simp: matching_def filter_empty_conv)

lemma set_matching:
  "set (matching reg lat lon) = {b \<in> set reg. contains_point b lat lon}"
  by (auto simp: matching_def)

lemma assign_Unassigned_iff:
  "assign reg lat lon = Unassigned \<longleftrightarrow> matching reg lat lon = []"
  by (simp add: assign_def split: list.splits)

lemma assign_single:
  "matching reg lat lon = [b] \<Longrightarrow> assign reg lat lon = Assigned (id_bin b)"
  by (simp add: assign_def)

lemma assign_cons:
  "matching reg lat lon = b # bs \<Longrightarrow>
   assign reg lat lon = Assigned (id_bin (foldl better_of b bs))"
  by (simp add: assign_def split: list.splits)

lemma assign_best:
  assumes "matching reg lat lon \<noteq> []"
  shows "\<exists>b\<in>set reg. contains_point b lat lon \<and>
           assign reg lat lon = Assigned (id_bin b) \<and>
           (\<forall>c\<in>set reg. contains_point c lat lon \<longrightarrow> at_least_as_good b c)"
proof -
  from assms obtain m ms where ms: "matching reg lat lon = m # ms"
    by (cases "matching reg lat lon") auto
  let ?r = "foldl better_of m ms"
  have "?r \<in> set (matching reg lat lon)"
    using foldl_better_of_mem [of m ms] by (simp only: ms)
  then have r: "?r \<in> set reg" "contains_point ?r lat lon"
    by (simp_all add: set_matching)
  have best: "at_least_as_good ?r c" if "c \<in> set reg" "contains_point c lat lon" for c
  proof -
    from that have "c \<in> set (m # ms)"
      using set_matching [of reg lat lon] ms by simp
    then show ?thesis by (rule foldl_better_of_best)
  qed
  from r best assign_cons [OF ms] show ?thesis by blast
qed

lemmas assign_eval =
  assign_def matching_def better_of_def contains_point_def bounds_defs binsData_def

lemma assign_shared_edge:
  "7 \<le> lat \<Longrightarrow> lat \<le> 12 \<Longrightarrow> assign binsData lat 122.65 = Assigned 16"
  by (cases "lat = 7"; cases "lat = 12") (simp_all add: assign_eval)

text \<open>
  C2. \<open>assign\<close> looks at the bins whose bounds contain the point, both comparisons
  inclusive. It returns \<open>Unassigned\<close> exactly when no bin of the registry matches; when
  exactly one bin matches it returns that bin; and whenever some bin matches it returns a
  matching bin that has the smallest area among the matching bins and, among those of
  that area, the smallest id. On the shared edge \<open>lon = 122.65\<close> of the bins 0 and 16 of
  the table (latitudes 7 to 12, corners included) it returns bin 16, the smaller one.
\<close>

theorem assign_tie_break:
  "(contains_point b lat lon \<longleftrightarrow>
      lon_min b \<le> lon \<and> lon \<le> lon_max b \<and> lat_min b \<le> lat \<and> lat \<le> lat_max b) \<and>
   (assign reg lat lon = Unassigned \<longleftrightarrow> (\<forall>c\<in>set reg. \<not> contains_point c lat lon)) \<and>
   (filter (\<lambda>c. contains_point c lat lon) reg = [b] \<longrightarrow>
      assign reg lat lon = Assigned (id_bin b)) \<and>
   ((\<exists>c\<in>set reg. contains_point c lat lon) \<longrightarrow>
      (\<exists>w\<in>set reg. contains_point w lat lon \<and> assign reg lat lon = Assigned (id_bin w) \<and>
         (\<forall>c\<in>set reg. contains_point c lat lon \<longrightarrow>
            area w < area c \<or> (area w = area c \<and> id_bin w \<le> id_bin c)))) \<and>
   (7 \<le> lat \<and> lat \<le> 12 \<longrightarrow> assign binsData lat 122.65 = Assigned 16)"
proof (intro conjI impI)
  show "contains_point b lat lon \<longleftrightarrow>
      lon_min b \<le> lon \<and> lon \<le> lon_max b \<and> lat_min b \<le> lat \<and> lat \<le> lat_max b"
    by (simp add: contains_point_def)
  show "assign reg lat lon = Unassigned \<longleftrightarrow> (\<forall>c\<in>set reg. \<not> contains_point c lat lon)"
    by (simp add: assign_Unassigned_iff matching_empty_iff)
  show "assign reg lat lon = Assigned (id_bin b)"
    if "filter (\<lambda>c. contains_point c lat lon) reg = [b]"
    using that by (intro assign_single) (simp add: matching_def)
  show "\<exists>w\<in>set reg. contains_point w lat lon \<and> assign reg lat lon = Assigned (id_bin w) \<and>
         (\<forall>c\<in>set reg. contains_point c lat lon \<longrightarrow>
            area w < area c \<or> (area w = area c \<and> id_bin w \<le> id_bin c))"
    if "\<exists>c\<in>set reg. contains_point c lat lon"
  proof -
    from that have "matching reg lat lon \<noteq> []"
      by (simp add: matching_empty_iff)
    from assign_best [OF this] show ?thesis
      by (simp add: at_least_as_good_def)
  qed
  show "assign binsData lat 122.65 = Assigned 16" if "7 \<le> lat \<and> lat \<le> 12"
    using that by (intro assign_shared_edge) simp_all
qed

text \<open>
  The point \<open>(9.5, 122.65)\<close> lies on the shared edge, in the bins 0 (area 15.875) and 16
  (area 7.94) and in no other; the point \<open>(3.25, 126)\<close> lies in bin 1 alone; the point
  \<open>(0, 0)\<close> lies in no bin.
\<close>

theorem assign_tie_break_witness:
  "filter (\<lambda>c. contains_point c 9.5 122.65) binsData = [binsData ! 0, binsData ! 16] \<and>
   (7::rat) \<le> 9.5 \<and> (9.5::rat) \<le> 12 \<and>
   assign binsData 9.5 122.65 = Assigned 16 \<and>
   (\<exists>w\<in>set binsData. contains_point w 9.5 122.65 \<and> id_bin w = 16 \<and>
      (\<forall>c\<in>set binsData. contains_point c 9.5 122.65 \<longrightarrow>
         area w < area c \<or> (area w = area c \<and> id_bin w \<le> id_bin c))) \<and>
   filter (\<lambda>c. contains_point c 3.25 126) binsData = [binsData ! 1] \<and>
   assign binsData 3.25 126 = Assigned 1 \<and>
   filter (\<lambda>c. contains_point c 0 0) binsData = [] \<and>
   assign binsData 0 0 = Unassigned"
proof -
  have two: "filter (\<lambda>c. contains_point c 9.5 122.65) binsData = [binsData ! 0, binsData ! 16]"
    by (simp add: contains_point_def bounds_defs binsData_def)
  have range: "(7::rat) \<le> 9.5 \<and> (9.5::rat) \<le> 12"
    by simp
  have one: "filter (\<lambda>c. contains_point c 3.25 126) binsData = [binsData ! 1]"
    by (simp add: contains_point_def bounds_defs binsData_def)
  have id1: "id_bin (binsData ! 1) = 1"
    by (simp add: binsData_def)
  have empty: "filter (\<lambda>c. contains_point c 0 0) binsData = []"
    by (simp add: contains_point_def bounds_defs binsData_def)
  then have none: "\<forall>c\<in>set binsData. \<not> contains_point c 0 0"
    by (simp only: filter_empty_conv)
  have some: "\<exists>c\<in>set binsData. contains_point c 9.5 122.65"
  proof -
    have "binsData ! 0 \<in> set (filter (\<lambda>c. contains_point c 9.5 122.65) binsData)"
      by (simp only: two) simp
    then show ?thesis by auto
  qed
  note spec_edge = assign_tie_break [of "binsData ! 0" "9.5" "122.65" binsData]
  note spec_one = assign_tie_break [of "binsData ! 1" "3.25" 126 binsData]
  note spec_none = assign_tie_break [of "binsData ! 0" 0 0 binsData]
  from spec_edge range have edge: "assign binsData 9.5 122.65 = Assigned 16"
    by blast
  from spec_edge some obtain w where w: "w \<in> set binsData" "contains_point w 9.5 122.65"
    "assign binsData 9.5 122.65 = Assigned (id_bin w)"
    "\<forall>c\<in>set binsData. contains_point c 9.5 122.65 \<longrightarrow>
       area w < area c \<or> (area w = area c \<and> id_bin w \<le> id_bin c)"
    by blast
  from w(3) edge have "id_bin w = 16" by simp
  with w have best: "\<exists>w\<in>set binsData. contains_point w 9.5 122.65 \<and> id_bin w = 16 \<and>
      (\<forall>c\<in>set binsData. contains_point c 9.5 122.65 \<longrightarrow>
         area w < area c \<or> (area w = area c \<and> id_bin w \<le> id_bin c))"
    by blast
  from spec_one one id1 have single: "assign binsData 3.25 126 = Assigned 1"
    by simp
  from spec_none none have unassigned: "assign binsData 0 0 = Unassigned"
    by blast
  from two range edge best one single empty unassigned show ?thesis
    by (intro conjI) (elim conjE, assumption)+
qed

subsection \<open>The table covers its region\<close>

lemma bin_covers:
  assumes "k < 24"
    and "map bounds binsData ! k ! 0 \<le> lon" "lon \<le> map bounds binsData ! k ! 1"
    and "map bounds binsData ! k ! 2 \<le> lat" "lat \<le> map bounds binsData ! k ! 3"
  shows "\<exists>b\<in>set binsData. contains_point b lat lon"
proof -
  from assms(1) have k: "k < length binsData"
    by (simp add: length_binsData)
  then have "binsData ! k \<in> set binsData"
    by (rule nth_mem)
  moreover from k assms(2-) have "contains_point (binsData ! k) lat lon"
    by (simp add: contains_point_def bounds_defs)
  ultimately show ?thesis by blast
qed

text \<open>
  The bounds of the table use eight longitudes and nine latitudes. Between two
  neighbouring longitudes the bins stack without a gap from latitude 2 to latitude 22.
\<close>

lemma covered_column_1:
  assumes lon: "116.3 \<le> lon" "lon \<le> 119.475" and lat: "2 \<le> lat" "lat \<le> 22"
  shows "\<exists>b\<in>set binsData. contains_point b lat lon"
proof -
  consider "lat \<le> 7"
    | "7 \<le> lat"
    by linarith
  then show ?thesis
  proof cases
    case 1
    with lon lat show ?thesis
      by (intro bin_covers [of 23]) (simp_all add: bounds_binsData)
  next
    case 2
    with lon lat show ?thesis
      by (intro bin_covers [of 22]) (simp_all add: bounds_binsData)
  qed
qed

lemma covered_column_2:
  assumes lon: "119.475 \<le> lon" "lon \<le> 121.0625" and lat: "2 \<le> lat" "lat \<le> 22"
  shows "\<exists>b\<in>set binsData. contains_point b lat lon"
proof -
  consider "lat \<le> 7"
    | "7 \<le> lat" "lat \<le> 12"
    | "12 \<le> lat" "lat \<le> 14.5"
    | "14.5 \<le> lat" "lat \<le> 17"
    | "17 \<le> lat" "lat \<le> 19.5"
    | "19.5 \<le> lat"
    by linarith
  then show ?thesis
  proof cases
    case 1
    with lon lat show ?thesis
      by (intro bin_covers [of 23]) (simp_all add: bounds_binsData)
  next
    case 2
    with lon lat show ?thesis
      by (intro bin_covers [of 0]) (simp_all add: bounds_binsData)
  next
    case 3
    with lon lat show ?thesis
      by (intro bin_covers [of 7]) (simp_all add: bounds_binsData)
  next
    case 4
    with lon lat show ?thesis
      by (intro bin_covers [of 8]) (simp_all add: bounds_binsData)
  next
    case 5
    with lon lat show ?thesis
      by (intro bin_covers [of 10]) (simp_all add: bounds_binsData)
  next
    case 6
    with lon lat show ?thesis
      by (intro bin_covers [of 12]) (simp_all add: bounds_binsData)
  qed
qed

lemma covered_column_3:
  assumes lon: "121.0625 \<le> lon" "lon \<le> 122.65" and lat: "2 \<le> lat" "lat \<le> 22"
  shows "\<exists>b\<in>set binsData. contains_point b lat lon"
proof -
  consider "lat \<le> 7"
    | "7 \<le> lat" "lat \<le> 12"
    | "12 \<le> lat" "lat \<le> 14.5"
    | "14.5 \<le> lat" "lat \<le> 17"
    | "17 \<le> lat" "lat \<le> 19.5"
    | "19.5 \<le> lat"
    by linarith
  then show ?thesis
  proof cases
    case 1
    with lon lat show ?thesis
      by (intro bin_covers [of 23]) (simp_all add: bounds_binsData)
  next
    case 2
    with lon lat show ?thesis
      by (intro bin_covers [of 0]) (simp_all add: bounds_binsData)
  next
    case 3
    with lon lat show ?thesis
      by (intro bin_covers [of 17]) (simp_all add: bounds_binsData)
  next
    case 4
    with lon lat show ?thesis
      by (intro bin_covers [of 9]) (simp_all add: bounds_binsData)
  next
    case 5
    with lon lat show ?thesis
      by (intro bin_covers [of 11]) (simp_all add: bounds_binsData)
  next
    case 6
    with lon lat show ?thesis
      by (intro bin_covers [of 13]) (simp_all add: bounds_binsData)
  qed
qed

lemma covered_column_4:
  assumes lon: "122.65 \<le> lon" "lon \<le> 124.2375" and lat: "2 \<le> lat" "lat \<le> 22"
  shows "\<exists>b\<in>set binsData. contains_point b lat lon"
proof -
  consider "lat \<le> 7"
    | "7 \<le> lat" "lat \<le> 12"
    | "12 \<le> lat" "lat \<le> 14.5"
    | "14.5 \<le> lat"
    by linarith
  then show ?thesis
  proof cases
    case 1
    with lon lat show ?thesis
      by (intro bin_covers [of 23]) (simp_all add: bounds_binsData)
  next
    case 2
    with lon lat show ?thesis
      by (intro bin_covers [of 16]) (simp_all add: bounds_binsData)
  next
    case 3
    with lon lat show ?thesis
      by (intro bin_covers [of 17]) (simp_all add: bounds_binsData)
  next
    case 4
    with lon lat show ?thesis
      by (intro bin_covers [of 21]) (simp_all add: bounds_binsData)
  qed
qed

lemma covered_column_5:
  assumes lon: "124.2375 \<le> lon" "lon \<le> 125.825" and lat: "2 \<le> lat" "lat \<le> 22"
  shows "\<exists>b\<in>set binsData. contains_point b lat lon"
proof -
  consider "lat \<le> 7"
    | "7 \<le> lat" "lat \<le> 9.5"
    | "9.5 \<le> lat" "lat \<le> 12"
    | "12 \<le> lat" "lat \<le> 14.5"
    | "14.5 \<le> lat"
    by linarith
  then show ?thesis
  proof cases
    case 1
    with lon lat show ?thesis
      by (intro bin_covers [of 19]) (simp_all add: bounds_binsData)
  next
    case 2
    with lon lat show ?thesis
      by (intro bin_covers [of 4]) (simp_all add: bounds_binsData)
  next
    case 3
    with lon lat show ?thesis
      by (intro bin_covers [of 5]) (simp_all add: bounds_binsData)
  next
    case 4
    with lon lat show ?thesis
      by (intro bin_covers [of 14]) (simp_all add: bounds_binsData)
  next
    case 5
    with lon lat show ?thesis
      by (intro bin_covers [of 21]) (simp_all add: bounds_binsData)
  qed
qed

lemma covered_column_6:
  assumes lon: "125.825 \<le> lon" "lon \<le> 127.4125" and lat: "2 \<le> lat" "lat \<le> 22"
  shows "\<exists>b\<in>set binsData. contains_point b lat lon"
proof -
  consider "lat \<le> 4.5"
    | "4.5 \<le> lat" "lat \<le> 7"
    | "7 \<le> lat" "lat \<le> 9.5"
    | "9.5 \<le> lat" "lat \<le> 12"
    | "12 \<le> lat"
    by linarith
  then show ?thesis
  proof cases
    case 1
    with lon lat show ?thesis
      by (intro bin_covers [of 1]) (simp_all add: bounds_binsData)
  next
    case 2
    with lon lat show ?thesis
      by (intro bin_covers [of 3]) (simp_all add: bounds_binsData)
  next
    case 3
    with lon lat show ?thesis
      by (intro bin_covers [of 6]) (simp_all add: bounds_binsData)
  next
    case 4
    with lon lat show ?thesis
      by (intro bin_covers [of 20]) (simp_all add: bounds_binsData)
  next
    case 5
    with lon lat show ?thesis
      by (intro bin_covers [of 18]) (simp_all add: bounds_binsData)
  qed
qed

lemma covered_column_7:
  assumes lon: "127.4125 \<le> lon" "lon \<le> 129" and lat: "2 \<le> lat" "lat \<le> 22"
  shows "\<exists>b\<in>set binsData. contains_point b lat lon"
proof -
  consider "lat \<le> 4.5"
    | "4.5 \<le> lat" "lat \<le> 9.5"
    | "9.5 \<le> lat" "lat \<le> 12"
    | "12 \<le> lat"
    by linarith
  then show ?thesis
  proof cases
    case 1
    with lon lat show ?thesis
      by (intro bin_covers [of 2]) (simp_all add: bounds_binsData)
  next
    case 2
    with lon lat show ?thesis
      by (intro bin_covers [of 15]) (simp_all add: bounds_binsData)
  next
    case 3
    with lon lat show ?thesis
      by (intro bin_covers [of 20]) (simp_all add: bounds_binsData)
  next
    case 4
    with lon lat show ?thesis
      by (intro bin_covers [of 18]) (simp_all add: bounds_binsData)
  qed
qed
lemma binsData_covers_region:
  assumes "116.3 \<le> lon" "lon \<le> 129.0" "2.0 \<le> lat" "lat \<le> 22.0"
  shows "\<exists>b\<in>set binsData. contains_point b lat lon"
proof -
  from assms have lat: "2 \<le> lat" "lat \<le> 22" by simp_all
  from assms have lon: "116.3 \<le> lon" "lon \<le> 129" by simp_all
  consider "lon \<le> 119.475"
    | "119.475 \<le> lon" "lon \<le> 121.0625"
    | "121.0625 \<le> lon" "lon \<le> 122.65"
    | "122.65 \<le> lon" "lon \<le> 124.2375"
    | "124.2375 \<le> lon" "lon \<le> 125.825"
    | "125.825 \<le> lon" "lon \<le> 127.4125"
    | "127.4125 \<le> lon"
    by linarith
  then show ?thesis
  proof cases
    case 1 with lon lat show ?thesis by (intro covered_column_1)
  next
    case 2 with lat show ?thesis by (intro covered_column_2)
  next
    case 3 with lat show ?thesis by (intro covered_column_3)
  next
    case 4 with lat show ?thesis by (intro covered_column_4)
  next
    case 5 with lat show ?thesis by (intro covered_column_5)
  next
    case 6 with lat show ?thesis by (intro covered_column_6)
  next
    case 7 with lon lat show ?thesis by (intro covered_column_7)
  qed
qed

text \<open>
  C9. The table leaves no gap inside its overall region: every point with
  \<open>116.3 \<le> lon \<le> 129.0\<close> and \<open>2.0 \<le> lat \<le> 22.0\<close> lies, with inclusive comparisons, in at
  least one bin of the table, so \<open>assign\<close> does not return \<open>Unassigned\<close> for it.
\<close>

theorem binsData_no_gaps:
  "116.3 \<le> lon \<and> lon \<le> 129.0 \<and> 2.0 \<le> lat \<and> lat \<le> 22.0 \<longrightarrow>
     (\<exists>b\<in>set binsData. contains_point b lat lon) \<and> assign binsData lat lon \<noteq> Unassigned"
proof
  assume "116.3 \<le> lon \<and> lon \<le> 129.0 \<and> 2.0 \<le> lat \<and> lat \<le> 22.0"
  then have covered: "\<exists>b\<in>set binsData. contains_point b lat lon"
    by (intro binsData_covers_region) simp_all
  then have "matching binsData lat lon \<noteq> []"
    by (simp add: matching_empty_iff)
  then have "assign binsData lat lon \<noteq> Unassigned"
    by (simp add: assign_Unassigned_iff)
  with covered show
    "(\<exists>b\<in>set binsData. contains_point b lat lon) \<and> assign binsData lat lon \<noteq> Unassigned" ..
qed

text \<open>
  Two opposite corners of the region: the south-west corner lies in bin 23 alone, the
  north-east corner in bin 18 alone.
\<close>

theorem binsData_no_gaps_witness:
  "(116.3::rat) \<le> 116.3 \<and> (116.3::rat) \<le> 129.0 \<and> (2.0::rat) \<le> 2.0 \<and> (2.0::rat) \<le> 22.0 \<and>
   (\<exists>b\<in>set binsData. contains_point b 2.0 116.3) \<and>
   assign binsData 2.0 116.3 \<noteq> Unassigned \<and> assign binsData 2.0 116.3 = Assigned 23 \<and>
   (116.3::rat) \<le> 129.0 \<and> (129.0::rat) \<le> 129.0 \<and> (2.0::rat) \<le> 22.0 \<and> (22.0::rat) \<le> 22.0 \<and>
   (\<exists>b\<in>set binsData. contains_point b 22.0 129.0) \<and>
   assign binsData 22.0 129.0 \<noteq> Unassigned \<and> assign binsData 22.0 129.0 = Assigned 18"
proof -
  have sw: "(116.3::rat) \<le> 116.3 \<and> (116.3::rat) \<le> 129.0 \<and> (2.0::rat) \<le> 2.0 \<and> (2.0::rat) \<le> 22.0"
    by simp
  have ne: "(116.3::rat) \<le> 129.0 \<and> (129.0::rat) \<le> 129.0 \<and> (2.0::rat) \<le> 22.0 \<and> (22.0::rat) \<le> 22.0"
    by simp
  have sw_bin: "assign binsData 2.0 116.3 = Assigned 23"
    by (simp add: assign_eval)
  have ne_bin: "assign binsData 22.0 129.0 = Assigned 18"
    by (simp add: assign_eval)
  from binsData_no_gaps [of "116.3" "2.0"] sw have
    "(\<exists>b\<in>set binsData. contains_point b 2.0 116.3) \<and> assign binsData 2.0 116.3 \<noteq> Unassigned"
    by (rule mp)
  moreover from binsData_no_gaps [of "129.0" "22.0"] ne have
    "(\<exists>b\<in>set binsData. contains_point b 22.0 129.0) \<and> assign binsData 22.0 129.0 \<noteq> Unassigned"
    by (rule mp)
  ultimately show ?thesis using sw ne sw_bin ne_bin
    by (intro conjI) (elim conjE, assumption)+
qed

section \<open>Properties of the risk classification\<close>

lemmas thresholds = MEDIUM_THRESHOLD_def HIGH_THRESHOLD_def CRITICAL_THRESHOLD_def

text \<open>
  C1. The classifier maps a magnitude to a tier by fixed ascending thresholds: below 5.0
  it is low, from 5.0 to 5.9 medium, from 6.0 to 6.9 high, from 7.0 on critical; the
  lower bound of each tier belongs to the tier.
\<close>

theorem classifyRisk_tiers:
  "(m < 5.0 \<longrightarrow> classifyRisk m = low) \<and>
   (5.0 \<le> m \<and> m \<le> 5.9 \<longrightarrow> classifyRisk m = medium) \<and>
   (6.0 \<le> m \<and> m \<le> 6.9 \<longrightarrow> classifyRisk m = high) \<and>
   (7.0 \<le> m \<longrightarrow> classifyRisk m = critical) \<and>
   classifyRisk 5.0 = medium \<and> classifyRisk 6.0 = high \<and> classifyRisk 7.0 = critical"
  by (simp add: classifyRisk_def thresholds)

text \<open>The magnitudes of the four fallback rows of the forecast page, one in each tier.\<close>

theorem classifyRisk_tiers_witness:
  "(4.2::rat) < 5.0 \<and> classifyRisk 4.2 = low \<and>
   (5.0::rat) \<le> 5.8 \<and> (5.8::rat) \<le> 5.9 \<and> classifyRisk 5.8 = medium \<and>
   (6.0::rat) \<le> 6.5 \<and> (6.5::rat) \<le> 6.9 \<and> classifyRisk 6.5 = high \<and>
   (7.0::rat) \<le> 7.2 \<and> classifyRisk 7.2 = critical"
  using classifyRisk_tiers [of "4.2"] classifyRisk_tiers [of "5.8"]
    classifyRisk_tiers [of "6.5"] classifyRisk_tiers [of "7.2"]
  by simp

text \<open>
  Every fallback row of \<open>generateForecast\<close> carries the tier the classifier gives its
  magnitude.
\<close>

lemma fallbackForecast_risk_levels:
  "list_all (\<lambda>r. risk_level r = risk_name (classifyRisk (max_magnitude r))) fallbackForecast"
  by (simp add: fallbackForecast_def classifyRisk_def thresholds)

text \<open>
  The marker of a historical earthquake has three colours, not four tiers; its two
  thresholds, 5 and 6, are inclusive lower bounds as well. For a magnitude from 5 up to 6
  it is the colour that \<open>riskColors\<close> lists for \<open>high\<close>, from 6 on the colour of
  \<open>critical\<close>.
\<close>

lemma markerColor_thresholds:
  "(m < 5 \<longrightarrow> map_of riskColors ''low'' = Some (markerColor m)) \<and>
   (5 \<le> m \<and> m < 6 \<longrightarrow> map_of riskColors ''high'' = Some (markerColor m)) \<and>
   (6 \<le> m \<longrightarrow> map_of riskColors ''critical'' = Some (markerColor m))"
  by (simp add: markerColor_def riskColors_def)

section \<open>Properties of the forecast page\<close>

lemma generateForecast_Rejected:
  "api (inputYear s) = Rejected \<Longrightarrow>
   generateForecast api s =
     s\<lparr>loading := False,
       error := Some ''Failed to fetch forecast data. Please try again.'',
       forecastData := fallbackForecast\<rparr>"
  by (simp add: generateForecast_def)

lemma generateForecast_Resolved:
  "api (inputYear s) = Resolved rows \<Longrightarrow>
   generateForecast api s = s\<lparr>loading := False, error := None, forecastData := rows\<rparr>"
  by (simp add: generateForecast_def)

text \<open>
  Unlike \<open>generateForecast\<close>, \<open>loadHistoricalData\<close> never touches the error message:
  the source calls historical data not critical.
\<close>

lemma loadHistoricalData_silent:
  "error (loadHistoricalData response s) = error s \<and>
   forecastData (loadHistoricalData response s) = forecastData s"
  by (simp add: loadHistoricalData_def split: reply.splits)

lemma handleYearSubmit_accepts:
  "inputYear s = Some y \<Longrightarrow> 2020 \<le> y \<Longrightarrow> y \<le> 2030 \<Longrightarrow>
   handleYearSubmit api s = generateForecast api s"
  by (simp add: handleYearSubmit_def)

lemma handleYearSubmit_rejects:
  "\<not> (\<exists>y. inputYear s = Some y \<and> 2020 \<le> y \<and> y \<le> 2030) \<Longrightarrow>
   handleYearSubmit api s =
     s\<lparr>error := Some ''Please enter a valid year between 2020 and 2030.''\<rparr>"
  by (auto simp: handleYearSubmit_def split: option.splits)

lemma generateForecast_inputYear: "inputYear (generateForecast api s) = inputYear s"
  by (simp add: generateForecast_def Let_def split: reply.splits)

lemma fallbackForecast_ids: "map bin_id fallbackForecast = [1, 2, 3, 4]"
  by (simp add: fallbackForecast_def)

lemma length_fallbackForecast: "length fallbackForecast = 4"
  by (simp add: fallbackForecast_def)

lemma geographicBins_ids: "map fst geographicBins = [1, 2, 3, 4]"
  by (simp add: geographicBins_def)

lemma generateForecast_forecastData:
  "forecastData (generateForecast api s) =
     (case api (inputYear s) of Resolved rows \<Rightarrow> rows | Rejected \<Rightarrow> fallbackForecast)"
  by (simp add: generateForecast_def Let_def split: reply.splits)

lemma generateForecast_error:
  "error (generateForecast api s) =
     (case api (inputYear s) of
        Resolved rows \<Rightarrow> None
      | Rejected \<Rightarrow> Some ''Failed to fetch forecast data. Please try again.'')"
  by (simp add: generateForecast_def Let_def split: reply.splits)

text \<open>
  The guard of \<open>handleYearSubmit\<close>. When the year of the input field lies in the
  inclusive range 2020 to 2030, the bounds included, it runs \<open>generateForecast\<close>, which
  sends that very year and stores the reply to it. For a year below 2020 or above 2030,
  and for an input that is not a number, it sends nothing, changes neither the year nor
  the forecast, and sets the error message asking for a year between 2020 and 2030.
\<close>

lemma handleYearSubmit_year_range:
  "(inputYear s = Some y \<and> 2020 \<le> y \<and> y \<le> 2030 \<longrightarrow>
      handleYearSubmit api s = generateForecast api s \<and>
      forecastData (handleYearSubmit api s) =
        (case api (Some y) of Resolved rows \<Rightarrow> rows | Rejected \<Rightarrow> fallbackForecast) \<and>
      inputYear (handleYearSubmit api s) = Some y \<and>
      error (handleYearSubmit api s) \<noteq> Some ''Please enter a valid year between 2020 and 2030.'') \<and>
   (inputYear s = None \<or> (inputYear s = Some y \<and> (y < 2020 \<or> 2030 < y)) \<longrightarrow>
      handleYearSubmit api s =
        s\<lparr>error := Some ''Please enter a valid year between 2020 and 2030.''\<rparr> \<and>
      shows_error (handleYearSubmit api s) \<and>
      inputYear (handleYearSubmit api s) = inputYear s \<and>
      forecastData (handleYearSubmit api s) = forecastData s)"
proof (intro conjI impI)
  assume ok: "inputYear s = Some y \<and> 2020 \<le> y \<and> y \<le> 2030"
  then have "inputYear s = Some y" "2020 \<le> y" "y \<le> 2030"
    by simp_all
  then show run: "handleYearSubmit api s = generateForecast api s"
    by (rule handleYearSubmit_accepts)
  from ok show "forecastData (handleYearSubmit api s) =
      (case api (Some y) of Resolved rows \<Rightarrow> rows | Rejected \<Rightarrow> fallbackForecast)"
    by (simp add: run generateForecast_forecastData)
  from ok show "inputYear (handleYearSubmit api s) = Some y"
    by (simp add: run generateForecast_inputYear)
  show "error (handleYearSubmit api s) \<noteq> Some ''Please enter a valid year between 2020 and 2030.''"
    by (simp add: run generateForecast_error split: reply.splits)
next
  assume bad: "inputYear s = None \<or> (inputYear s = Some y \<and> (y < 2020 \<or> 2030 < y))"
  then have "\<not> (\<exists>z. inputYear s = Some z \<and> 2020 \<le> z \<and> z \<le> 2030)"
    by auto
  then show rej: "handleYearSubmit api s =
      s\<lparr>error := Some ''Please enter a valid year between 2020 and 2030.''\<rparr>"
    by (rule handleYearSubmit_rejects)
  show "shows_error (handleYearSubmit api s)"
    by (simp add: rej shows_error_def)
  show "inputYear (handleYearSubmit api s) = inputYear s"
    by (simp add: rej)
  show "forecastData (handleYearSubmit api s) = forecastData s"
    by (simp add: rej)
qed

text \<open>
  C5. A forecast request with a year outside the range 2020 to 2030 is to be rejected,
  and \<open>handleYearSubmit\<close> does reject it. The effect on mount does not: a page opened
  while the clock shows the year 2030 starts with the year 2031, and the effect sends the
  request for 2031 and stores the reply, or the fallback rows when the request fails. It
  never sets the error message for an invalid year, which \<open>handleYearSubmit\<close> sets on
  the very same page.
\<close>

theorem mountEffect_unguarded:
  "inputYear (initialPage 2030) = Some 2031 \<and>
   forecastData (mountEffect api response (initialPage 2030)) =
     (case api (Some 2031) of Resolved rows \<Rightarrow> rows | Rejected \<Rightarrow> fallbackForecast) \<and>
   error (mountEffect api response (initialPage 2030)) \<noteq>
     Some ''Please enter a valid year between 2020 and 2030.'' \<and>
   handleYearSubmit api (initialPage 2030) =
     (initialPage 2030)\<lparr>error := Some ''Please enter a valid year between 2020 and 2030.''\<rparr>"
proof (intro conjI)
  show year: "inputYear (initialPage 2030) = Some 2031"
    by (simp add: initialPage_def)
  show "forecastData (mountEffect api response (initialPage 2030)) =
     (case api (Some 2031) of Resolved rows \<Rightarrow> rows | Rejected \<Rightarrow> fallbackForecast)"
    by (simp add: mountEffect_def loadHistoricalData_silent generateForecast_forecastData year)
  show "error (mountEffect api response (initialPage 2030)) \<noteq>
     Some ''Please enter a valid year between 2020 and 2030.''"
    by (simp add: mountEffect_def loadHistoricalData_silent generateForecast_error
        split: reply.splits)
  show "handleYearSubmit api (initialPage 2030) =
     (initialPage 2030)\<lparr>error := Some ''Please enter a valid year between 2020 and 2030.''\<rparr>"
    by (rule handleYearSubmit_rejects) (simp add: year)
qed

text \<open>
  The rows the page falls back to are one for each bin of its own table
  \<open>geographicBins\<close>, the ids 1 to 4, each once and in ascending order.
\<close>

lemma fallbackForecast_per_geographic_bin:
  "one_record_per_id (map fst geographicBins) fallbackForecast"
  by (simp add: one_record_per_id_def geographicBins_ids fallbackForecast_ids
      length_fallbackForecast)

text \<open>
  C7 as stated fails. On the freshly opened page, which shows no error and holds no
  historical data, a forecast request that fails makes the page show an error message;
  and the rows it falls back to are not statistics of historical data: they report 15, 8,
  3 and 1 earthquakes although the page has no historical earthquake at all.
\<close>

theorem generateForecast_failure_counterexample:
  "\<not> shows_error (initialPage 2024) \<and>
   historicalData (initialPage 2024) = [] \<and>
   shows_error (generateForecast unreachable (initialPage 2024)) \<and>
   map num_earthquakes (forecastData (generateForecast unreachable (initialPage 2024))) =
     [15, 8, 3, 1]"
  by (simp add: generateForecast_def unreachable_def initialPage_def shows_error_def
      fallbackForecast_def)

text \<open>
  C7, amended. When the forecast request fails, \<open>generateForecast\<close> still produces a
  result for each bin and does not abort: it stores the four fallback rows, one for each
  of the bins 1 to 4, the same fixed rows whatever historical data the page holds, and
  clears \<open>loading\<close>. It also tells the user: it sets the error message
  \<open>Failed to fetch forecast data. Please try again.\<close>, which the page shows.
\<close>

theorem generateForecast_failure_fallback:
  "api (inputYear s) = Rejected \<longrightarrow>
     forecastData (generateForecast api s) = fallbackForecast \<and>
     map bin_id (forecastData (generateForecast api s)) = [1, 2, 3, 4] \<and>
     loading (generateForecast api s) = False \<and>
     error (generateForecast api s) = Some ''Failed to fetch forecast data. Please try again.'' \<and>
     shows_error (generateForecast api s) \<and>
     historicalData (generateForecast api s) = historicalData s \<and>
     inputYear (generateForecast api s) = inputYear s"
  by (simp add: generateForecast_Rejected fallbackForecast_ids shows_error_def)

text \<open>The freshly opened page with the backend out of reach.\<close>

theorem generateForecast_failure_fallback_witness:
  "unreachable (inputYear (initialPage 2024)) = Rejected \<and>
   forecastData (generateForecast unreachable (initialPage 2024)) = fallbackForecast \<and>
   loading (generateForecast unreachable (initialPage 2024)) = False \<and>
   error (generateForecast unreachable (initialPage 2024)) =
     Some ''Failed to fetch forecast data. Please try again.''"
proof -
  have down: "unreachable (inputYear (initialPage 2024)) = Rejected"
    by (simp add: unreachable_def)
  from generateForecast_failure_fallback [of unreachable "initialPage 2024"] down
  show ?thesis by blast
qed

section \<open>Properties of the forecast aggregator\<close>

lemma forecast_ids: "map bin_id (forecast reg aggregate year) = map id_bin reg"
  by (simp add: forecast_def)

lemma count_list_distinct:
  "distinct xs \<Longrightarrow> x \<in> set xs \<Longrightarrow> count_list xs x = 1"
  by (induction xs) (auto simp: count_list_0_iff)

lemma forecast_one_per_bin:
  assumes "sorted (map id_bin reg)" "distinct (map id_bin reg)"
  shows "one_record_per_id (map id_bin reg) (forecast reg aggregate year)"
proof -
  have "length (forecast reg aggregate year) = length (map id_bin reg)"
    by (simp add: forecast_def)
  moreover have "list_all (\<lambda>i. count_list (map bin_id (forecast reg aggregate year)) i = 1)
      (map id_bin reg)"
    using assms(2) by (simp add: forecast_ids list_all_iff count_list_distinct)
  moreover have "sorted (map bin_id (forecast reg aggregate year))"
    using assms(1) by (simp add: forecast_ids)
  ultimately show ?thesis
    by (simp add: one_record_per_id_def)
qed

lemma backend_in_range:
  "2020 \<le> year \<Longrightarrow> year \<le> 2030 \<Longrightarrow>
   backend reg aggregate (Some year) = Resolved (forecast reg aggregate year)"
  by (simp add: backend_def forecast_query_def)

text \<open>
  C6. For every year inside the supported range 2020 to 2030, \<open>forecast(year)\<close> over the
  table \<open>binsData\<close> returns as many records as the table has bins, the id of every bin
  of the table in exactly one record, in ascending order of bin id: the ids 0 to 23. The
  same holds over any registry that lists its bins in ascending order of distinct ids,
  and the page shows these records as it receives them. When the backend is out of
  reach, the page shows its fallback rows instead, which are one for each bin of its own
  table \<open>geographicBins\<close>, in ascending order of bin id.
\<close>

theorem forecast_one_record_per_bin:
  "(2020 \<le> year \<and> year \<le> 2030 \<longrightarrow>
      forecast_query binsData aggregate year = Inr (forecast binsData aggregate year) \<and>
      length (forecast binsData aggregate year) = length binsData \<and>
      (\<forall>b\<in>set binsData.
         count_list (map bin_id (forecast binsData aggregate year)) (id_bin b) = 1) \<and>
      sorted (map bin_id (forecast binsData aggregate year)) \<and>
      map bin_id (forecast binsData aggregate year) =
        [0, 1, 2, 3, 4, 5, 6, 7, 8, 9, 10, 11, 12, 13, 14, 15, 16, 17, 18, 19, 20, 21, 22, 23]) \<and>
   (2020 \<le> year \<and> year \<le> 2030 \<and> sorted (map id_bin reg) \<and> distinct (map id_bin reg) \<longrightarrow>
      forecast_query reg aggregate year = Inr (forecast reg aggregate year) \<and>
      one_record_per_id (map id_bin reg) (forecast reg aggregate year)) \<and>
   (inputYear s = Some year \<and> 2020 \<le> year \<and> year \<le> 2030 \<and>
    sorted (map id_bin reg) \<and> distinct (map id_bin reg) \<longrightarrow>
      forecastData (handleYearSubmit (backend reg aggregate) s) = forecast reg aggregate year \<and>
      one_record_per_id (map id_bin reg) (forecastData (handleYearSubmit (backend reg aggregate) s))) \<and>
   (inputYear s = Some year \<and> 2020 \<le> year \<and> year \<le> 2030 \<and> api (Some year) = Rejected \<longrightarrow>
      forecastData (handleYearSubmit api s) = fallbackForecast \<and>
      one_record_per_id (map fst geographicBins) (forecastData (handleYearSubmit api s)))"
proof (intro conjI impI)
  assume range: "2020 \<le> year \<and> year \<le> 2030"
  then show "forecast_query binsData aggregate year = Inr (forecast binsData aggregate year)"
    by (simp add: forecast_query_def)
  have sorted_ids: "sorted (map id_bin binsData)" and distinct_ids: "distinct (map id_bin binsData)"
    by (simp_all add: ids_binsData)
  from forecast_one_per_bin [OF sorted_ids distinct_ids, of aggregate year]
  have one: "one_record_per_id (map id_bin binsData) (forecast binsData aggregate year)" .
  from one show "length (forecast binsData aggregate year) = length binsData"
    by (simp add: one_record_per_id_def)
  from one show "\<forall>b\<in>set binsData.
      count_list (map bin_id (forecast binsData aggregate year)) (id_bin b) = 1"
    by (simp add: one_record_per_id_def list_all_iff)
  from one show "sorted (map bin_id (forecast binsData aggregate year))"
    by (simp add: one_record_per_id_def)
  show "map bin_id (forecast binsData aggregate year) =
      [0, 1, 2, 3, 4, 5, 6, 7, 8, 9, 10, 11, 12, 13, 14, 15, 16, 17, 18, 19, 20, 21, 22, 23]"
    by (simp only: forecast_ids ids_binsData)
next
  assume hyp: "2020 \<le> year \<and> year \<le> 2030 \<and> sorted (map id_bin reg) \<and> distinct (map id_bin reg)"
  then show "forecast_query reg aggregate year = Inr (forecast reg aggregate year)"
    by (simp add: forecast_query_def)
  from hyp show "one_record_per_id (map id_bin reg) (forecast reg aggregate year)"
    by (intro forecast_one_per_bin) simp_all
next
  assume hyp: "inputYear s = Some year \<and> 2020 \<le> year \<and> year \<le> 2030 \<and>
    sorted (map id_bin reg) \<and> distinct (map id_bin reg)"
  then have year: "inputYear s = Some year" "2020 \<le> year" "year \<le> 2030"
    by simp_all
  then have run: "handleYearSubmit (backend reg aggregate) s = generateForecast (backend reg aggregate) s"
    by (rule handleYearSubmit_accepts)
  from year show shown: "forecastData (handleYearSubmit (backend reg aggregate) s) =
      forecast reg aggregate year"
    by (simp add: run generateForecast_forecastData backend_in_range)
  from hyp have "one_record_per_id (map id_bin reg) (forecast reg aggregate year)"
    by (intro forecast_one_per_bin) simp_all
  then show "one_record_per_id (map id_bin reg)
      (forecastData (handleYearSubmit (backend reg aggregate) s))"
    by (simp only: shown)
next
  assume hyp: "inputYear s = Some year \<and> 2020 \<le> year \<and> year \<le> 2030 \<and> api (Some year) = Rejected"
  then have year: "inputYear s = Some year" "2020 \<le> year" "year \<le> 2030"
    by simp_all
  then have run: "handleYearSubmit api s = generateForecast api s"
    by (rule handleYearSubmit_accepts)
  from hyp show fb: "forecastData (handleYearSubmit api s) = fallbackForecast"
    by (simp add: run generateForecast_forecastData)
  show "one_record_per_id (map fst geographicBins) (forecastData (handleYearSubmit api s))"
    by (simp only: fb fallbackForecast_per_geographic_bin)
qed

text \<open>
  The year 2025 over the table, without any data: from the aggregator, on the page opened
  in 2024 with the backend answering, and on the same page with the backend out of reach.
\<close>

theorem forecast_one_record_per_bin_witness:
  "(2020::int) \<le> 2025 \<and> (2025::int) \<le> 2030 \<and>
   sorted (map id_bin binsData) \<and> distinct (map id_bin binsData) \<and>
   inputYear (initialPage 2024) = Some 2025 \<and> unreachable (Some 2025) = Rejected \<and>
   forecast_query binsData no_data 2025 = Inr (forecast binsData no_data 2025) \<and>
   length (forecast binsData no_data 2025) = 24 \<and>
   map bin_id (forecast binsData no_data 2025) =
     [0, 1, 2, 3, 4, 5, 6, 7, 8, 9, 10, 11, 12, 13, 14, 15, 16, 17, 18, 19, 20, 21, 22, 23] \<and>
   one_record_per_id (map id_bin binsData) (forecast binsData no_data 2025) \<and>
   one_record_per_id (map id_bin binsData)
     (forecastData (handleYearSubmit (backend binsData no_data) (initialPage 2024))) \<and>
   forecastData (handleYearSubmit unreachable (initialPage 2024)) = fallbackForecast \<and>
   one_record_per_id (map fst geographicBins)
     (forecastData (handleYearSubmit unreachable (initialPage 2024)))"
proof -
  have range: "(2020::int) \<le> 2025 \<and> (2025::int) \<le> 2030"
    by simp
  have ids: "sorted (map id_bin binsData) \<and> distinct (map id_bin binsData)"
    by (simp add: ids_binsData)
  have page: "inputYear (initialPage 2024) = Some 2025"
    by (simp add: initialPage_def)
  have down: "unreachable (Some 2025) = Rejected"
    by (simp add: unreachable_def)
  note spec = forecast_one_record_per_bin
    [of 2025 no_data binsData "initialPage 2024" unreachable]
  from spec range have table:
    "forecast_query binsData no_data 2025 = Inr (forecast binsData no_data 2025) \<and>
     length (forecast binsData no_data 2025) = length binsData \<and>
     map bin_id (forecast binsData no_data 2025) =
       [0, 1, 2, 3, 4, 5, 6, 7, 8, 9, 10, 11, 12, 13, 14, 15, 16, 17, 18, 19, 20, 21, 22, 23]"
    by blast
  from spec range ids have
    general: "one_record_per_id (map id_bin binsData) (forecast binsData no_data 2025)"
    by blast
  from spec range ids page have
    answered: "one_record_per_id (map id_bin binsData)
      (forecastData (handleYearSubmit (backend binsData no_data) (initialPage 2024)))"
    by blast
  from spec range page down have
    fallback: "forecastData (handleYearSubmit unreachable (initialPage 2024)) = fallbackForecast \<and>
      one_record_per_id (map fst geographicBins)
        (forecastData (handleYearSubmit unreachable (initialPage 2024)))"
    by blast
  from table have len: "length (forecast binsData no_data 2025) = 24"
    by (simp add: length_binsData)
  from range ids page down table len general answered fallback show ?thesis
    by (intro conjI) (elim conjE, assumption)+
qed

end
